theory Spec2Isabelle
  imports Complex_Main
begin

section \<open>Data model\<close>

text \<open>
  JavaScript numbers are doubles. In the geometry of \<open>intersectionArea\<close>, in the line
  search and in the analysis of \<open>circleOverlap\<close> they are read as real numbers with exact
  arithmetic. The rounding of the arithmetic is modelled where a claim depends on it:
  in \<open>bisect\<close> and in \<open>circleOverlap_double\<close>. Where the source reads a property that does
  not exist, the value NaN it produces is modelled explicitly at that place.

  The source types \<open>Point2d = {x, y}\<close> and \<open>Circle = {x, y, radius}\<close> are structural:
  \<open>distance\<close> is applied to points and to circles alike. The records below extend
  one another so that one definition serves both. The fields \<open>x\<close> and \<open>y\<close> of the source
  are called \<open>px\<close> and \<open>py\<close>.
\<close>

datatype error = TypeError | SizeError | BisectError | SyntaxError

record point2d =
  px :: real
  py :: real

record circle = point2d +
  radius :: real

text \<open>An intersection point carries the indices of its two parent circles.\<close>

record ipoint = point2d +
  parentIndex :: "nat list"

record arc =
  circle :: circle
  width :: real
  p1 :: point2d
  p2 :: point2d

record stats =
  area :: real
  arcArea :: real
  polygonArea :: real
  arcs :: "arc list"
  innerPoints :: "ipoint list"
  intersectionPoints :: "ipoint list"

definition point :: "'a point2d_scheme \<Rightarrow> point2d" where
  "point p = \<lparr>px = px p, py = py p\<rparr>"

section \<open>Geometry kernel\<close>

definition distance :: "'a point2d_scheme \<Rightarrow> 'b point2d_scheme \<Rightarrow> real" where
  "distance a b = sqrt ((px a - px b) * (px a - px b) + (py a - py b) * (py a - py b))"

text \<open>\<open>Math.atan2(y, x)\<close> of the host language, on real arguments.\<close>

definition Math_atan2 :: "real \<Rightarrow> real \<Rightarrow> real" where
  "Math_atan2 v u =
     (if u > 0 then arctan (v / u)
      else if u < 0 \<and> v \<ge> 0 then arctan (v / u) + pi
      else if u < 0 then arctan (v / u) - pi
      else if v > 0 then pi / 2
      else if v < 0 then - (pi / 2)
      else 0)"

definition getSubPolygonArea :: "'a point2d_scheme \<Rightarrow> 'b point2d_scheme \<Rightarrow> real" where
  "getSubPolygonArea q2 q1 = (px q2 + px q1) * (py q1 - py q2)"

text \<open>The tolerance \<open>SMALL\<close> is imported from a module that is not part of the sources
  at hand; it is a parameter of every function that uses it.\<close>

definition containedInCircles :: "real \<Rightarrow> 'a point2d_scheme \<Rightarrow> circle list \<Rightarrow> bool" where
  "containedInCircles SMALL p circles =
     list_all (\<lambda>c. distance p c \<le> radius c + SMALL) circles"

definition circleCircleIntersection :: "circle \<Rightarrow> circle \<Rightarrow> point2d list" where
  "circleCircleIntersection c1 c2 =
     (let d = distance c1 c2; r1 = radius c1; r2 = radius c2;
          tooFar = (d \<ge> r1 + r2);
          selfContained = (d \<le> \<bar>r1 - r2\<bar>)
      in if tooFar \<or> selfContained then []
         else
           (let a = (r1 * r1 - r2 * r2 + d * d) / (2 * d);
                h = sqrt (r1 * r1 - a * a);
                x0 = px c1 + (a * (px c2 - px c1)) / d;
                y0 = py c1 + (a * (py c2 - py c1)) / d;
                rx = - (py c2 - py c1) * (h / d);
                ry = - (px c2 - px c1) * (h / d)
            in [\<lparr>px = x0 + rx, py = y0 - ry\<rparr>, \<lparr>px = x0 - rx, py = y0 + ry\<rparr>]))"

definition getIntersectionPoints :: "circle list \<Rightarrow> ipoint list" where
  "getIntersectionPoints circles =
     concat (map (\<lambda>i.
       concat (map (\<lambda>j.
         map (\<lambda>p. \<lparr>px = px p, py = py p, parentIndex = [i, j]\<rparr>)
             (circleCircleIntersection (circles ! i) (circles ! j)))
         [i + 1 ..< length circles]))
       [0 ..< length circles])"

text \<open>\<open>circleArea\<close> and \<open>circleOverlap\<close> read in exact arithmetic. What the source computes on
  doubles, where \<open>Math.acos\<close> and \<open>Math.sqrt\<close> are NaN outside their domains, is
  \<open>circleArea_double\<close> and \<open>circleOverlap_double\<close> below.\<close>

definition circleArea :: "real \<Rightarrow> real \<Rightarrow> real" where
  "circleArea r w = r * r * arccos (1 - w / r) - (r - w) * sqrt (w * (2 * r - w))"

definition circleOverlap :: "real \<Rightarrow> real \<Rightarrow> real \<Rightarrow> real" where
  "circleOverlap r1 r2 d =
     (if d \<ge> r1 + r2 then 0
      else if d \<le> \<bar>r1 - r2\<bar> then (let r = min r1 r2 in pi * r * r)
      else
        (let w1 = r1 - (d * d - r2 * r2 + r1 * r1) / (2 * d);
             w2 = r2 - (d * d - r1 * r1 + r2 * r2) / (2 * d)
         in circleArea r1 w1 + circleArea r2 w2))"

text \<open>The source divides by the number of points; it calls the function on lists of
  at least two points only.\<close>

definition getCenter :: "'a point2d_scheme list \<Rightarrow> point2d" where
  "getCenter points =
     (let c = foldl (\<lambda>c p. \<lparr>px = px c + px p, py = py c + py p\<rparr>) \<lparr>px = 0, py = 0\<rparr> points;
          l = real (length points)
      in \<lparr>px = px c / l, py = py c / l\<rparr>)"

text \<open>The inner loop of the boundary walk looks, among the parent circles of \<open>q1\<close> that
  are parents of \<open>q2\<close> too, for the one whose arc between the two points is narrowest.\<close>

definition arcWidth :: "circle \<Rightarrow> ipoint \<Rightarrow> ipoint \<Rightarrow> real" where
  "arcWidth c q1 q2 =
     (let midPoint = \<lparr>px = (px q1 + px q2) / 2, py = (py q1 + py q2) / 2\<rparr>;
          a1 = Math_atan2 (px q1 - px c) (py q1 - py c);
          a2 = Math_atan2 (px q2 - px c) (py q2 - py c);
          angleDiff = (if a2 - a1 < 0 then a2 - a1 + 2 * pi else a2 - a1);
          a = a2 - angleDiff / 2;
          w = distance midPoint \<lparr>px = px c + radius c * sin a, py = py c + radius c * cos a\<rparr>
      in min w (radius c * 2))"

text \<open>The source declares \<open>const arc = null\<close> and assigns the arc found to it: the
  assignment to a constant throws. So the loop ends with \<open>arc\<close> still \<open>null\<close> when the two
  points share no parent circle, and throws at the first parent they share.\<close>

definition pickArc :: "circle list \<Rightarrow> ipoint \<Rightarrow> ipoint \<Rightarrow> error + arc option" where
  "pickArc circles q1 q2 =
     foldl (\<lambda>best j.
        (case best of
           Inl e \<Rightarrow> Inl e
         | Inr arc \<Rightarrow>
             if j \<in> set (parentIndex q2) then
               (let c = circles ! j; w = arcWidth c q1 q2
                in (case arc of
                      None \<Rightarrow> Inl TypeError
                    | Some b \<Rightarrow> if width b > w then Inl TypeError else Inr arc))
             else Inr arc))
      (Inr None) (parentIndex q1)"

text \<open>The state of the walk over the sorted inner points: the two running areas, the
  arcs found so far, and the previous point \<open>p2\<close>.\<close>

definition walkStep :: "circle list \<Rightarrow> error + real \<times> real \<times> arc list \<times> ipoint \<Rightarrow> ipoint
    \<Rightarrow> error + real \<times> real \<times> arc list \<times> ipoint" where
  "walkStep circles st q1 =
     (case st of
        Inl e \<Rightarrow> Inl e
      | Inr (polyA, arcA, as, q2) \<Rightarrow>
          (let polyA' = polyA + getSubPolygonArea q2 q1
           in (case pickArc circles q1 q2 of
                 Inl e \<Rightarrow> Inl e
               | Inr None \<Rightarrow> Inr (polyA', arcA, as, q2)
               | Inr (Some a) \<Rightarrow>
                   Inr (polyA', arcA + circleArea (radius (circle a)) (width a), as @ [a], q1))))"

definition sortByAngle :: "ipoint list \<Rightarrow> ipoint list" where
  "sortByAngle pts =
     (let center = getCenter pts
      in sort_key (\<lambda>p. - Math_atan2 (px p - px center) (py p - py center)) pts)"

definition smallest :: "circle \<Rightarrow> circle list \<Rightarrow> circle" where
  "smallest c cs = foldl (\<lambda>prev curr. if radius prev < radius curr then prev else curr) c cs"

text \<open>\<open>intersectionArea\<close> returns the area; the record is what it writes into the
  \<open>stats\<close> argument when one is given. \<open>reduce\<close> without an initial value throws on the
  empty array.\<close>

definition intersectionArea :: "real \<Rightarrow> circle list \<Rightarrow> error + real \<times> stats" where
  "intersectionArea SMALL circles =
     (let ips = getIntersectionPoints circles;
          inner = filter (\<lambda>p. containedInCircles SMALL p circles) ips
      in if length inner > 1 then
           (let sortedPoints = sortByAngle inner
            in (case foldl (walkStep circles) (Inr (0, 0, [], last sortedPoints)) sortedPoints of
                  Inl e \<Rightarrow> Inl e
                | Inr (polyA, arcA, as, q) \<Rightarrow>
                    (let polyA2 = polyA / 2
                     in Inr (arcA + polyA2,
                          \<lparr>area = arcA + polyA2, arcArea = arcA, polygonArea = polyA2,
                           arcs = as, innerPoints = inner, intersectionPoints = ips\<rparr>))))
         else
           (case circles of
              [] \<Rightarrow> Inl TypeError
            | c # cs \<Rightarrow>
               (let smt = smallest c cs;
                    smallestIsContained =
                      list_all (\<lambda>c. distance c smt > \<bar>radius smt - radius c\<bar>) circles
                in if \<not> smallestIsContained then
                     Inr (0, \<lparr>area = 0, arcArea = 0, polygonArea = 0, arcs = [],
                              innerPoints = inner, intersectionPoints = ips\<rparr>)
                   else
                     (let r = radius smt; arcA = r * r * pi;
                          newArc = \<lparr>circle = smt, width = radius smt * 2,
                                    p1 = \<lparr>px = px smt, py = py smt + r\<rparr>,
                                    p2 = \<lparr>px = px smt - SMALL, py = py smt + r\<rparr>\<rparr>
                      in Inr (arcA + 0 / 2,
                           \<lparr>area = arcA + 0 / 2, arcArea = arcA, polygonArea = 0 / 2,
                            arcs = [newArc], innerPoints = inner, intersectionPoints = ips\<rparr>)))))"

section \<open>Intersection area of one circle and of two circles\<close>

lemma smallest_mem: "smallest c cs \<in> set (c # cs)"
  unfolding smallest_def
  by (induction cs arbitrary: c) auto

lemma distance_self: "distance c c = 0"
  by (simp add: distance_def)

text \<open>The test \<open>smallestIsContained\<close> compares the smallest circle with every circle of
  the list, itself included; against itself the distance 0 does not exceed the radius
  difference 0, so the test fails on every non-empty list.\<close>

lemma smallestIsContained_never:
  "\<not> list_all (\<lambda>c. distance c (smallest c0 cs) > \<bar>radius (smallest c0 cs) - radius c\<bar>)
       (c0 # cs)"
proof -
  have "smallest c0 cs \<in> set (c0 # cs)"
    by (rule smallest_mem)
  moreover have "\<not> distance (smallest c0 cs) (smallest c0 cs)
      > \<bar>radius (smallest c0 cs) - radius (smallest c0 cs)\<bar>"
    by (simp add: distance_self)
  ultimately show ?thesis
    unfolding list_all_iff by blast
qed

lemma getIntersectionPoints_single: "getIntersectionPoints [c] = []"
  by (simp add: getIntersectionPoints_def)

lemma getIntersectionPoints_pair:
  "getIntersectionPoints [a, b] =
     map (\<lambda>p. \<lparr>px = px p, py = py p, parentIndex = [0, 1]\<rparr>) (circleCircleIntersection a b)"
  by (simp add: getIntersectionPoints_def upt_rec)

lemma intersectionArea_single: "map_sum id fst (intersectionArea SMALL [c]) = Inr 0"
  using smallestIsContained_never[of c "[]"]
  by (simp add: intersectionArea_def getIntersectionPoints_single Let_def)

lemma intersectionArea_disjoint_pair:
  "distance a b > radius a + radius b \<Longrightarrow>
     map_sum id fst (intersectionArea SMALL [a, b]) = Inr 0"
  using smallestIsContained_never[of a "[b]"]
  by (simp add: intersectionArea_def getIntersectionPoints_pair circleCircleIntersection_def
      Let_def)

lemma intersectionArea_identical_pair: "map_sum id fst (intersectionArea SMALL [a, a]) = Inr 0"
  using smallestIsContained_never[of a "[a]"]
  by (simp add: intersectionArea_def getIntersectionPoints_pair circleCircleIntersection_def
      Let_def distance_self)

text \<open>
  Claim C1 says that \<open>intersectionArea\<close> of the one-element list \<open>[c]\<close> is \<open>\<pi>\<cdot>r\<^sup>2\<close>. The
  code returns 0: for the unit circle at the origin the result is 0, which is not \<open>\<pi>\<close>.
\<close>

theorem intersectionArea_unit_circle:
  "map_sum id fst (intersectionArea SMALL [\<lparr>px = 0, py = 0, radius = 1\<rparr>]) = Inr 0
   \<and> pi * 1\<^sup>2 \<noteq> (0::real)"
  using intersectionArea_single[of SMALL "\<lparr>px = 0, py = 0, radius = 1\<rparr>"] by simp

text \<open>
  Claim C2 says that \<open>intersectionArea\<close> of two circles further apart than the sum of
  their radii is 0, and of two identical circles of radius \<open>r\<close> is \<open>\<pi>\<cdot>r\<^sup>2\<close>. The first half
  holds (\<open>intersectionArea_disjoint_pair\<close>); for two copies of the unit circle the code
  returns 0, not \<open>\<pi>\<close>.
\<close>

theorem intersectionArea_identical_unit_circles:
  "map_sum id fst (intersectionArea SMALL
      [\<lparr>px = 0, py = 0, radius = 1\<rparr>, \<lparr>px = 0, py = 0, radius = 1\<rparr>]) = Inr 0
   \<and> distance \<lparr>px = 0, py = 0, radius = 1\<rparr> \<lparr>px = 0, py = 0, radius = 1\<rparr> = 0
   \<and> pi * 1\<^sup>2 \<noteq> (0::real)"
  using intersectionArea_identical_pair[of SMALL "\<lparr>px = 0, py = 0, radius = 1\<rparr>"]
  by (simp add: distance_self)

section \<open>Numbers that may be NaN\<close>

text \<open>
  The optimizers call objective functions supplied by the caller, and read arrays by
  index. There a number is a real or NaN: arithmetic on NaN gives NaN, every comparison
  with NaN is false. The arithmetic on reals is exact. Division by zero, which would be an
  infinity or NaN in the source, is not told apart from NaN.
\<close>

datatype jsnum = Num real | NaN

instantiation jsnum :: "{zero, one, plus, minus, uminus, times, inverse, abs, ord}"
begin

definition zero_jsnum :: jsnum where
  "zero_jsnum = Num 0"

definition one_jsnum :: jsnum where
  "one_jsnum = Num 1"

fun plus_jsnum :: "jsnum \<Rightarrow> jsnum \<Rightarrow> jsnum" where
  "plus_jsnum (Num a) (Num b) = Num (a + b)"
| "plus_jsnum _ _ = NaN"

fun minus_jsnum :: "jsnum \<Rightarrow> jsnum \<Rightarrow> jsnum" where
  "minus_jsnum (Num a) (Num b) = Num (a - b)"
| "minus_jsnum _ _ = NaN"

fun uminus_jsnum :: "jsnum \<Rightarrow> jsnum" where
  "uminus_jsnum (Num a) = Num (- a)"
| "uminus_jsnum NaN = NaN"

fun times_jsnum :: "jsnum \<Rightarrow> jsnum \<Rightarrow> jsnum" where
  "times_jsnum (Num a) (Num b) = Num (a * b)"
| "times_jsnum _ _ = NaN"

fun divide_jsnum :: "jsnum \<Rightarrow> jsnum \<Rightarrow> jsnum" where
  "divide_jsnum (Num a) (Num b) = (if b = 0 then NaN else Num (a / b))"
| "divide_jsnum _ _ = NaN"

fun inverse_jsnum :: "jsnum \<Rightarrow> jsnum" where
  "inverse_jsnum (Num a) = (if a = 0 then NaN else Num (inverse a))"
| "inverse_jsnum NaN = NaN"

fun abs_jsnum :: "jsnum \<Rightarrow> jsnum" where
  "abs_jsnum (Num a) = Num \<bar>a\<bar>"
| "abs_jsnum NaN = NaN"

fun less_eq_jsnum :: "jsnum \<Rightarrow> jsnum \<Rightarrow> bool" where
  "less_eq_jsnum (Num a) (Num b) = (a \<le> b)"
| "less_eq_jsnum _ _ = False"

fun less_jsnum :: "jsnum \<Rightarrow> jsnum \<Rightarrow> bool" where
  "less_jsnum (Num a) (Num b) = (a < b)"
| "less_jsnum _ _ = False"

instance ..

end


section \<open>Double-precision arithmetic\<close>

text \<open>
  The numbers of the source are IEEE 754 doubles, and its \<open>+\<close>, \<open>-\<close>, \<open>*\<close> and \<open>/\<close> give the
  exact result rounded to the nearest double, ties to the even one. \<open>fl\<close> is that
  rounding: the doubles near \<open>x\<close> are the multiples of \<open>quantum x\<close>, which is
  \<open>2 ^ (e - 52)\<close> when \<open>2 ^ e \<le> |x| < 2 ^ (e + 1)\<close>, and \<open>2 ^ (- 1074)\<close> when
  \<open>|x| < 2 ^ (- 1022)\<close>. A result too large for a double (an infinity in the source) is
  not modelled. The rounding is used where a claim depends on it: in \<open>bisect\<close> and in
  \<open>circleOverlap_double\<close>.
\<close>

definition roundEven :: "real \<Rightarrow> int" where
  "roundEven y =
     (let n = \<lfloor>y\<rfloor>; r = y - of_int n
      in if r < 1 / 2 then n else if 1 / 2 < r then n + 1 else if even n then n else n + 1)"

definition quantum :: "real \<Rightarrow> real" where
  "quantum x =
     (if \<bar>x\<bar> < 2 powr (- 1022) then 2 powr (- 1074)
      else 2 powr (of_int \<lfloor>log 2 \<bar>x\<bar>\<rfloor> - 52))"

definition fl :: "real \<Rightarrow> real" where
  "fl x = of_int (roundEven (x / quantum x)) * quantum x"

lemma quantum_normal:
  assumes "2 powr (of_int e) \<le> \<bar>x\<bar>" "\<bar>x\<bar> < 2 powr (of_int e + 1)" "- 1022 \<le> e"
  shows "quantum x = 2 powr (of_int e - 52)"
proof -
  have pos: "0 < \<bar>x\<bar>"
    using assms(1) by (smt (verit) powr_gt_zero)
  have "\<lfloor>log 2 \<bar>x\<bar>\<rfloor> = e"
    using floor_log_eq_powr_iff[of "\<bar>x\<bar>" 2 e] pos assms by simp
  moreover have "\<not> \<bar>x\<bar> < 2 powr (- 1022)"
  proof -
    have "(2::real) powr (- 1022) \<le> 2 powr (of_int e)"
      using assms(3) by (intro powr_mono) auto
    then show ?thesis using assms(1) by linarith
  qed
  ultimately show ?thesis
    by (simp add: quantum_def)
qed

lemma fl_ge_one:
  assumes "2 ^ k \<le> \<bar>x\<bar>" "\<bar>x\<bar> < 2 * 2 ^ k"
  shows "fl x = of_int (roundEven (x * 2 ^ 52 / 2 ^ k)) * 2 ^ k / 2 ^ 52"
proof -
  have a: "(2::real) powr (of_int (int k)) = 2 ^ k"
    by (simp add: powr_realpow)
  have b: "(2::real) powr (of_int (int k) + 1) = 2 * 2 ^ k"
    by (simp add: powr_add powr_realpow)
  have q: "quantum x = 2 powr (of_int (int k) - 52)"
    by (rule quantum_normal) (use assms a b in auto)
  have "(2::real) powr (of_int (int k) - 52) = 2 ^ k / 2 ^ 52"
    by (simp add: powr_diff powr_realpow)
  with q have "quantum x = 2 ^ k / 2 ^ 52" by simp
  then show ?thesis
    by (simp only: fl_def divide_divide_eq_right times_divide_eq_right)
qed

lemma fl_lt_one:
  assumes "1 \<le> \<bar>x\<bar> * 2 ^ k" "\<bar>x\<bar> * 2 ^ k < 2" "k \<le> 1022"
  shows "fl x = of_int (roundEven (x * (2 ^ 52 * 2 ^ k))) / (2 ^ 52 * 2 ^ k)"
proof -
  have a: "(2::real) powr (of_int (- int k)) = 1 / 2 ^ k"
    by (simp add: powr_minus_divide powr_realpow)
  have b: "(2::real) powr (of_int (- int k) + 1) = 2 / 2 ^ k"
    by (simp add: powr_diff powr_realpow)
  have q: "quantum x = 2 powr (of_int (- int k) - 52)"
  proof (rule quantum_normal)
    show "2 powr real_of_int (- int k) \<le> \<bar>x\<bar>"
      unfolding a using assms(1) by (simp add: field_simps)
    show "\<bar>x\<bar> < 2 powr (real_of_int (- int k) + 1)"
      unfolding b using assms(2) by (simp add: field_simps)
    show "- 1022 \<le> - int k"
      using assms(3) by simp
  qed
  have "(2::real) powr (of_int (- int k) - 52) = 1 / (2 ^ 52 * 2 ^ k)"
    by (simp add: powr_diff powr_minus_divide powr_realpow)
  with q have "quantum x = 1 / (2 ^ 52 * 2 ^ k)" by simp
  then show ?thesis
    by (simp only: fl_def divide_divide_eq_right times_divide_eq_right mult_1 mult_1_right div_by_1)
qed

lemma fl_tiny:
  assumes "\<bar>x\<bar> < 1 / 2 ^ 1022"
  shows "fl x = of_int (roundEven (x * 2 ^ 1074)) / 2 ^ 1074"
proof -
  have "(2::real) powr (- 1022) = 1 / 2 ^ 1022"
    by (simp add: powr_neg_numeral)
  moreover have "(2::real) powr (- 1074) = 1 / 2 ^ 1074"
    by (simp add: powr_neg_numeral)
  ultimately have "quantum x = 1 / 2 ^ 1074"
    using assms by (simp only: quantum_def if_True)
  then show ?thesis
    by (simp only: fl_def divide_divide_eq_right times_divide_eq_right mult_1 mult_1_right div_by_1)
qed

text \<open>The four operations on numbers that may be NaN.\<close>

definition round64 :: "jsnum \<Rightarrow> jsnum" where
  "round64 v = (case v of Num x \<Rightarrow> Num (fl x) | NaN \<Rightarrow> NaN)"

definition add64 :: "jsnum \<Rightarrow> jsnum \<Rightarrow> jsnum" where
  "add64 a b = round64 (a + b)"

definition sub64 :: "jsnum \<Rightarrow> jsnum \<Rightarrow> jsnum" where
  "sub64 a b = round64 (a - b)"

definition mul64 :: "jsnum \<Rightarrow> jsnum \<Rightarrow> jsnum" where
  "mul64 a b = round64 (a * b)"

definition div64 :: "jsnum \<Rightarrow> jsnum \<Rightarrow> jsnum" where
  "div64 a b = round64 (a / b)"

text \<open>\<open>Math.acos\<close> and \<open>Math.sqrt\<close> are NaN outside their domains; inside, the host
  language returns an approximation of its own, a parameter here. \<open>Math.PI\<close> is the
  double nearest to \<open>\<pi>\<close>.\<close>

definition Math_acos :: "(real \<Rightarrow> real) \<Rightarrow> jsnum \<Rightarrow> jsnum" where
  "Math_acos approx v =
     (case v of Num x \<Rightarrow> if x < - 1 \<or> 1 < x then NaN else Num (approx x) | NaN \<Rightarrow> NaN)"

definition Math_sqrt64 :: "(real \<Rightarrow> real) \<Rightarrow> jsnum \<Rightarrow> jsnum" where
  "Math_sqrt64 approx v =
     (case v of Num x \<Rightarrow> if x < 0 then NaN else Num (approx x) | NaN \<Rightarrow> NaN)"

definition Math_PI :: jsnum where
  "Math_PI = Num (884279719003555 / 281474976710656)"

fun Math_min :: "jsnum \<Rightarrow> jsnum \<Rightarrow> jsnum" where
  "Math_min (Num a) (Num b) = Num (min a b)"
| "Math_min _ _ = NaN"

lemma round64_NaN: "round64 NaN = NaN"
  by (simp add: round64_def)

lemma mul64_NaN: "mul64 a NaN = NaN"
  by (cases a) (simp_all add: mul64_def round64_def)

lemma sub64_NaN: "sub64 NaN b = NaN"
  by (simp add: sub64_def round64_def)

lemma add64_NaN: "add64 NaN b = NaN"
  by (simp add: add64_def round64_def)

section \<open>Vector algebra utilities\<close>

definition truthy :: "jsnum \<Rightarrow> bool" where
  "truthy v = (case v of Num r \<Rightarrow> r \<noteq> 0 | NaN \<Rightarrow> False)"

text \<open>\<open>v || d\<close> for a number \<open>v\<close>.\<close>

definition orDefault :: "jsnum \<Rightarrow> jsnum \<Rightarrow> jsnum" where
  "orDefault v d = (if truthy v then v else d)"

fun Math_sqrt :: "jsnum \<Rightarrow> jsnum" where
  "Math_sqrt (Num a) = (if a < 0 then NaN else Num (sqrt a))"
| "Math_sqrt NaN = NaN"

fun Math_max :: "jsnum \<Rightarrow> jsnum \<Rightarrow> jsnum" where
  "Math_max (Num a) (Num b) = Num (max a b)"
| "Math_max _ _ = NaN"

text \<open>Reading an array beyond its length gives \<open>undefined\<close>, which is NaN in arithmetic.\<close>

definition readAt :: "jsnum list \<Rightarrow> nat \<Rightarrow> jsnum" where
  "readAt v i = (if i < length v then v ! i else NaN)"

definition zeros :: "nat \<Rightarrow> jsnum list" where
  "zeros n = replicate n (Num 0)"

definition shallowCopy :: "'a list \<Rightarrow> 'a list" where
  "shallowCopy arr = arr"

definition dot :: "jsnum list \<Rightarrow> jsnum list \<Rightarrow> error + jsnum" where
  "dot a b =
     (if length a \<noteq> length b then Inl SizeError
      else Inr (foldl (\<lambda>p c. p + fst c * snd c) (Num 0) (zip a b)))"

definition norm2 :: "jsnum list \<Rightarrow> error + jsnum" where
  "norm2 a = (case dot a a of Inl e \<Rightarrow> Inl e | Inr v \<Rightarrow> Inr (Math_sqrt v))"

text \<open>\<open>weightedSum\<close> maps over \<open>ret\<close> and returns the array that \<open>map\<close> builds: one entry for
  each index of \<open>ret\<close>. The entries of \<open>ret\<close> are not read.\<close>

definition weightedSum ::
  "jsnum list \<Rightarrow> jsnum \<Rightarrow> jsnum list \<Rightarrow> jsnum \<Rightarrow> jsnum list \<Rightarrow> jsnum list" where
  "weightedSum ret w1 v1 w2 v2 =
     map (\<lambda>index. w1 * readAt v1 index + w2 * readAt v2 index) [0 ..< length ret]"

text \<open>\<open>scale\<close> assigns \<open>ret[i]\<close> for every index of \<open>value\<close>, which extends \<open>ret\<close> when it is
  the shorter array. The result is the content of \<open>ret\<close> afterwards.\<close>

definition scale :: "jsnum list \<Rightarrow> jsnum list \<Rightarrow> jsnum \<Rightarrow> jsnum list" where
  "scale ret val c = map (\<lambda>v. v * c) val @ drop (length val) ret"

subsection \<open>Arrays as objects of a heap\<close>

text \<open>
  Arrays are objects: a call can change an array that the caller still holds. The heap is
  the list of all arrays allocated so far and a reference is an index into it; a new
  array is appended. \<open>Array.prototype.map\<close> allocates the array it returns and writes to
  no other; an indexed assignment writes to the array it names.
\<close>

type_synonym heap = "jsnum list list"
type_synonym ref = nat

definition weightedSum_heap ::
  "heap \<Rightarrow> ref \<Rightarrow> jsnum \<Rightarrow> ref \<Rightarrow> jsnum \<Rightarrow> ref \<Rightarrow> heap \<times> ref" where
  "weightedSum_heap h ret w1 v1 w2 v2 =
     (h @ [weightedSum (h ! ret) w1 (h ! v1) w2 (h ! v2)], length h)"

definition scale_heap :: "heap \<Rightarrow> ref \<Rightarrow> ref \<Rightarrow> jsnum \<Rightarrow> heap" where
  "scale_heap h ret val c = h[ret := scale (h ! ret) (h ! val) c]"

section \<open>Conjugate gradient with a Wolfe line search\<close>

text \<open>
  An objective \<open>f(x, fxprime)\<close> returns its value and writes the gradient into the array
  \<open>fxprime\<close>: the model returns the value and the new content of that array.
  Some bindings that the source assigns to are declared \<open>const\<close> there; the model reads
  them as variables.
\<close>

type_synonym objective = "jsnum list \<Rightarrow> jsnum \<times> jsnum list"

record cgpoint =
  cg_x :: "jsnum list"
  fx :: jsnum
  fxprime :: "jsnum list"

text \<open>\<open>p.fx = f(p.x, p.fxprime)\<close>\<close>

definition evalAt :: "objective \<Rightarrow> cgpoint \<Rightarrow> cgpoint" where
  "evalAt f p = (case f (cg_x p) of (v, g) \<Rightarrow> p\<lparr>fx := v, fxprime := g\<rparr>)"

text \<open>What the closure \<open>zoom\<close> and the outer loop read and never assign.\<close>

record searchEnv =
  env_f :: objective
  env_pk :: "jsnum list"
  env_current :: cgpoint
  phi0 :: jsnum
  phiPrime0 :: jsnum
  c1 :: jsnum
  c2 :: jsnum

text \<open>\<open>zoom\<close>: the first argument counts the iterations that remain of the 16. The result
  is the step returned and the record \<open>next\<close> as the search leaves it.\<close>

fun zoom :: "searchEnv \<Rightarrow> nat \<Rightarrow> jsnum \<Rightarrow> jsnum \<Rightarrow> jsnum \<Rightarrow> cgpoint \<Rightarrow> error + jsnum \<times> cgpoint" where
  "zoom E 0 a_lo a_high phi_lo next = Inr (Num 0, next)"
| "zoom E (Suc n) a_lo a_high phi_lo next =
     (let a = (a_lo + a_high) / Num 2;
          dropped = weightedSum (cg_x next) (Num 1) (cg_x (env_current E)) a (env_pk E);
          next = evalAt (env_f E) next;
          phi = fx next
      in case dot (fxprime next) (env_pk E) of
           Inl e \<Rightarrow> Inl e
         | Inr phiPrime \<Rightarrow>
             if phi > phi0 E + c1 E * a * phiPrime0 E \<or> phi \<ge> phi_lo
             then zoom E n a_lo a phi_lo next
             else if \<bar>phiPrime\<bar> \<le> - c2 E * phiPrime0 E then Inr (a, next)
             else zoom E n a (if phiPrime * (a_high - a_lo) \<ge> Num 0 then a_lo else a_high)
                    phi next)"

text \<open>The outer loop: \<open>n\<close> iterations remain of the 10, \<open>iteration\<close> is the loop counter.\<close>

fun wolfeLoop ::
  "searchEnv \<Rightarrow> nat \<Rightarrow> nat \<Rightarrow> jsnum \<Rightarrow> jsnum \<Rightarrow> jsnum \<Rightarrow> cgpoint \<Rightarrow> error + jsnum \<times> cgpoint" where
  "wolfeLoop E 0 iteration a a0 phi_old next = Inr (a, next)"
| "wolfeLoop E (Suc n) iteration a a0 phi_old next =
     (let dropped = weightedSum (cg_x next) (Num 1) (cg_x (env_current E)) a (env_pk E);
          next = evalAt (env_f E) next;
          phi = fx next
      in case dot (fxprime next) (env_pk E) of
           Inl e \<Rightarrow> Inl e
         | Inr phiPrime \<Rightarrow>
             if phi > phi0 E + c1 E * a * phiPrime0 E \<or> (iteration \<noteq> 0 \<and> phi \<ge> phi_old)
             then zoom E 16 a0 a phi_old next
             else if \<bar>phiPrime\<bar> \<le> - c2 E * phiPrime0 E then Inr (a, next)
             else if phiPrime \<ge> Num 0 then zoom E 16 a a0 phi next
             else wolfeLoop E n (iteration + 1) (a * Num 2) a phi next)"

text \<open>The callers pass five arguments, so \<open>c1\<close> and \<open>c2\<close> take their defaults.\<close>

definition searchEnvFor :: "objective \<Rightarrow> jsnum list \<Rightarrow> cgpoint \<Rightarrow> jsnum \<Rightarrow> searchEnv" where
  "searchEnvFor f pk current d =
     \<lparr>env_f = f, env_pk = pk, env_current = current, phi0 = fx current,
      phiPrime0 = d, c1 = Num (1 / 10 ^ 6), c2 = Num (1 / 10)\<rparr>"

definition wolfeLineSearch ::
  "objective \<Rightarrow> jsnum list \<Rightarrow> cgpoint \<Rightarrow> cgpoint \<Rightarrow> jsnum \<Rightarrow> error + jsnum \<times> cgpoint" where
  "wolfeLineSearch f pk current next a =
     (case dot (fxprime current) pk of
        Inl e \<Rightarrow> Inl e
      | Inr d \<Rightarrow>
          wolfeLoop (searchEnvFor f pk current d) 10 0 (orDefault a (Num 1)) (Num 0)
            (fx current) next)"


section \<open>The frame of \<open>weightedSum\<close>\<close>

lemma weightedSum_length: "length (weightedSum ret w1 v1 w2 v2) = length ret"
  by (simp add: weightedSum_def)

lemma weightedSum_equal_length:
  assumes "length v1 = length ret" and "length v2 = length ret"
  shows "weightedSum ret w1 v1 w2 v2 = map (\<lambda>i. w1 * v1 ! i + w2 * v2 ! i) [0 ..< length ret]"
  using assms by (simp add: weightedSum_def readAt_def)

lemma zoom_keeps_x: "zoom E n a_lo a_high phi_lo next = Inr (r, next') \<Longrightarrow> cg_x next' = cg_x next"
proof (induction n arbitrary: a_lo a_high phi_lo "next")
  case 0
  then show ?case by simp
next
  case (Suc n)
  have ev: "cg_x (evalAt (env_f E) next) = cg_x next"
    by (simp add: evalAt_def split: prod.splits)
  from Suc.prems show ?case
    by (auto simp: Let_def ev split: sum.splits if_splits dest!: Suc.IH)
qed

lemma wolfeLoop_keeps_x:
  "wolfeLoop E n i a a0 phi_old next = Inr (r, next') \<Longrightarrow> cg_x next' = cg_x next"
proof (induction n arbitrary: i a a0 phi_old "next")
  case 0
  then show ?case by simp
next
  case (Suc n)
  have ev: "cg_x (evalAt (env_f E) next) = cg_x next"
    by (simp add: evalAt_def split: prod.splits)
  from Suc.prems show ?case
    by (auto simp: Let_def ev split: sum.splits if_splits dest!: Suc.IH zoom_keeps_x)
qed

text \<open>The line search passes \<open>next.x\<close> as \<open>ret\<close> to receive the trial point; the point it
  holds afterwards is the one it held before.\<close>

lemma wolfeLineSearch_keeps_x:
  "wolfeLineSearch f pk current next a = Inr (r, next') \<Longrightarrow> cg_x next' = cg_x next"
  by (auto simp: wolfeLineSearch_def split: sum.splits dest: wolfeLoop_keeps_x)

text \<open>
  Claim C4: \<open>weightedSum\<close> leaves the array passed as \<open>ret\<close> unchanged. It returns a
  freshly built array and writes nothing into \<open>ret\<close>: after the call every array that
  existed before, \<open>ret\<close> among them, has the content it had; the reference returned is
  that of a new array, which holds the weighted sum (for \<open>v1\<close>, \<open>v2\<close> of the length of
  \<open>ret\<close>: \<open>w1 * v1[i] + w2 * v2[i]\<close> at every index).
\<close>

theorem weightedSum_leaves_ret_unchanged:
  assumes "ret < length h"
  shows "fst (weightedSum_heap h ret w1 v1 w2 v2) ! ret = h ! ret
     \<and> (\<forall>p < length h. fst (weightedSum_heap h ret w1 v1 w2 v2) ! p = h ! p)
     \<and> \<not> snd (weightedSum_heap h ret w1 v1 w2 v2) < length h
     \<and> snd (weightedSum_heap h ret w1 v1 w2 v2) < length (fst (weightedSum_heap h ret w1 v1 w2 v2))
     \<and> fst (weightedSum_heap h ret w1 v1 w2 v2) ! snd (weightedSum_heap h ret w1 v1 w2 v2)
         = weightedSum (h ! ret) w1 (h ! v1) w2 (h ! v2)
     \<and> (length (h ! v1) = length (h ! ret) \<and> length (h ! v2) = length (h ! ret) \<longrightarrow>
          fst (weightedSum_heap h ret w1 v1 w2 v2) ! snd (weightedSum_heap h ret w1 v1 w2 v2)
          = map (\<lambda>i. w1 * (h ! v1) ! i + w2 * (h ! v2) ! i) [0 ..< length (h ! ret)])"
  using assms
  by (simp add: weightedSum_heap_def nth_append weightedSum_equal_length)

theorem weightedSum_leaves_ret_unchanged_witness:
  "(0::nat) < length [[Num 0, Num 0], [Num 1, Num 2], [Num 3, Num 4]]
   \<and> fst (weightedSum_heap [[Num 0, Num 0], [Num 1, Num 2], [Num 3, Num 4]] 0 (Num 1) 1 (Num 2) 2) ! 0
       = [Num 0, Num 0]
   \<and> snd (weightedSum_heap [[Num 0, Num 0], [Num 1, Num 2], [Num 3, Num 4]] 0 (Num 1) 1 (Num 2) 2) = 3
   \<and> fst (weightedSum_heap [[Num 0, Num 0], [Num 1, Num 2], [Num 3, Num 4]] 0 (Num 1) 1 (Num 2) 2) ! 3
       = [Num 7, Num 10]"
  using weightedSum_leaves_ret_unchanged
    [of 0 "[[Num 0, Num 0], [Num 1, Num 2], [Num 3, Num 4]]" "Num 1" 1 "Num 2" 2]
  by (simp add: weightedSum_heap_def)


section \<open>What the Wolfe line search returns\<close>

text \<open>The sufficient-decrease and curvature tests as the code evaluates them, for the step
  \<open>a\<close> and the values that \<open>next\<close> holds.\<close>

definition accepted :: "searchEnv \<Rightarrow> jsnum \<Rightarrow> cgpoint \<Rightarrow> bool" where
  "accepted E a next =
     (case dot (fxprime next) (env_pk E) of
        Inl e \<Rightarrow> False
      | Inr phiPrime \<Rightarrow>
          \<not> fx next > phi0 E + c1 E * a * phiPrime0 E \<and> \<bar>phiPrime\<bar> \<le> - c2 E * phiPrime0 E)"

text \<open>The outer loop takes none of its exits in \<open>n\<close> consecutive tries.\<close>

fun allTriesFail :: "searchEnv \<Rightarrow> nat \<Rightarrow> nat \<Rightarrow> jsnum \<Rightarrow> jsnum \<Rightarrow> cgpoint \<Rightarrow> bool" where
  "allTriesFail E 0 iteration a phi_old next = True"
| "allTriesFail E (Suc n) iteration a phi_old next =
     (let next = evalAt (env_f E) next; phi = fx next
      in case dot (fxprime next) (env_pk E) of
           Inl e \<Rightarrow> False
         | Inr phiPrime \<Rightarrow>
             \<not> (phi > phi0 E + c1 E * a * phiPrime0 E \<or> (iteration \<noteq> 0 \<and> phi \<ge> phi_old))
             \<and> \<not> \<bar>phiPrime\<bar> \<le> - c2 E * phiPrime0 E
             \<and> \<not> phiPrime \<ge> Num 0
             \<and> allTriesFail E n (iteration + 1) (a * Num 2) phi next)"

fun doubled :: "nat \<Rightarrow> jsnum \<Rightarrow> jsnum" where
  "doubled 0 a = a"
| "doubled (Suc n) a = doubled n (a * Num 2)"

lemma zoom_result:
  "zoom E n a_lo a_high phi_lo next = Inr (r, next') \<Longrightarrow> r = Num 0 \<or> accepted E r next'"
proof (induction n arbitrary: a_lo a_high phi_lo "next")
  case 0
  then show ?case by simp
next
  case (Suc n)
  from Suc.prems show ?case
    by (auto simp: Let_def accepted_def split: sum.splits if_splits dest!: Suc.IH)
qed

lemma wolfeLoop_result:
  "wolfeLoop E n i a a0 phi_old next = Inr (r, next') \<Longrightarrow>
     r = Num 0 \<or> accepted E r next' \<or> r = doubled n a"
proof (induction n arbitrary: i a a0 phi_old "next")
  case 0
  then show ?case by simp
next
  case (Suc n)
  from Suc.prems show ?case
    by (auto simp: Let_def accepted_def split: sum.splits if_splits dest!: Suc.IH zoom_result)
qed

lemma wolfeLoop_exhausted:
  "allTriesFail E n i a phi_old next \<Longrightarrow>
     \<exists>next'. wolfeLoop E n i a a0 phi_old next = Inr (doubled n a, next')"
proof (induction n arbitrary: i a a0 phi_old "next")
  case 0
  then show ?case by simp
next
  case (Suc n)
  from Suc.prems show ?case
    by (auto simp: Let_def split: sum.splits if_splits intro!: Suc.IH)
qed

lemma doubled_Num: "doubled n (Num r) = Num (r * 2 ^ n)"
  by (induction n arbitrary: r) (simp_all add: mult.assoc)

lemma orDefault_Num: "\<exists>r. r \<noteq> 0 \<and> orDefault a (Num 1) = Num r"
  by (cases a) (auto simp: orDefault_def truthy_def)

lemma doubled_10: "doubled 10 (orDefault a (Num 1)) = orDefault a (Num 1) * Num 1024"
proof -
  obtain r where "orDefault a (Num 1) = Num r" using orDefault_Num by blast
  then show ?thesis by (simp add: doubled_Num)
qed

lemma step_1024_nonzero: "orDefault a (Num 1) * Num 1024 \<noteq> Num 0"
proof -
  obtain r where "r \<noteq> 0" "orDefault a (Num 1) = Num r" using orDefault_Num by blast
  then show ?thesis by simp
qed

text \<open>
  Claim C7, as amended: the line search returns 0 when the bisection \<open>zoom\<close> uses up its
  tries without accepting a step (every result of \<open>zoom\<close> is 0 or a step that passed both
  tests); every result of the line search is 0, an accepted step, or the trial step
  doubled ten times, which is 1024 times the initial step; when the outer loop takes none
  of its exits in its 10 tries the result is that doubled step, and it is never 0.
\<close>

theorem wolfeLineSearch_results:
  "(zoom E n a_lo a_high phi_lo next = Inr (r, next') \<longrightarrow> r = Num 0 \<or> accepted E r next')
   \<and> (dot (fxprime current) pk = Inr d \<and> wolfeLineSearch f pk current next a = Inr (r, next') \<longrightarrow>
        r = Num 0 \<or> accepted (searchEnvFor f pk current d) r next'
        \<or> r = orDefault a (Num 1) * Num 1024)
   \<and> (dot (fxprime current) pk = Inr d
        \<and> allTriesFail (searchEnvFor f pk current d) 10 0 (orDefault a (Num 1)) (fx current) next \<longrightarrow>
        (\<exists>next'. wolfeLineSearch f pk current next a = Inr (orDefault a (Num 1) * Num 1024, next')))
   \<and> orDefault a (Num 1) * Num 1024 \<noteq> Num 0"
proof (intro conjI impI)
  assume "zoom E n a_lo a_high phi_lo next = Inr (r, next')"
  then show "r = Num 0 \<or> accepted E r next'" by (rule zoom_result)
next
  assume h: "dot (fxprime current) pk = Inr d \<and> wolfeLineSearch f pk current next a = Inr (r, next')"
  then have "wolfeLoop (searchEnvFor f pk current d) 10 0 (orDefault a (Num 1)) (Num 0)
            (fx current) next = Inr (r, next')"
    by (auto simp: wolfeLineSearch_def)
  from wolfeLoop_result[OF this]
  show "r = Num 0 \<or> accepted (searchEnvFor f pk current d) r next'
        \<or> r = orDefault a (Num 1) * Num 1024"
    by (simp only: doubled_10)
next
  assume h: "dot (fxprime current) pk = Inr d
        \<and> allTriesFail (searchEnvFor f pk current d) 10 0 (orDefault a (Num 1)) (fx current) next"
  then have "\<exists>next'. wolfeLoop (searchEnvFor f pk current d) 10 0 (orDefault a (Num 1)) (Num 0)
            (fx current) next = Inr (doubled 10 (orDefault a (Num 1)), next')"
    using wolfeLoop_exhausted by blast
  with h show "\<exists>next'. wolfeLineSearch f pk current next a = Inr (orDefault a (Num 1) * Num 1024, next')"
    by (auto simp: wolfeLineSearch_def doubled_10)
next
  show "orDefault a (Num 1) * Num 1024 \<noteq> Num 0" by (rule step_1024_nonzero)
qed


text \<open>Two objectives: one whose value is NaN (with gradient 1), and the sum of squares.\<close>

definition nanObjective :: objective where
  "nanObjective xs = (NaN, [Num 1])"

definition squareObjective :: objective where
  "squareObjective xs = (foldl (\<lambda>s v. s + v * v) (Num 0) xs, map (\<lambda>v. Num 2 * v) xs)"

lemma allTriesFail_nanObjective:
  "allTriesFail (searchEnvFor nanObjective [Num (- 1)] \<lparr>cg_x = [Num 0], fx = Num 0, fxprime = [Num 1]\<rparr>
      (Num (- 1))) 10 0 (Num 1) (Num 0) \<lparr>cg_x = [Num 0], fx = Num 0, fxprime = [Num 0]\<rparr>"
  by (simp add: searchEnvFor_def dot_def nanObjective_def evalAt_def Let_def numeral_nat)

lemma wolfeLineSearch_squareObjective:
  "wolfeLineSearch squareObjective [Num (- 2)] \<lparr>cg_x = [Num 1], fx = Num 1, fxprime = [Num 2]\<rparr>
      \<lparr>cg_x = [Num 1], fx = Num 0, fxprime = [Num 1]\<rparr> (Num 1)
   = Inr (Num 0, \<lparr>cg_x = [Num 1], fx = Num 1, fxprime = [Num 2]\<rparr>)"
  by (simp add: wolfeLineSearch_def searchEnvFor_def dot_def orDefault_def truthy_def
      squareObjective_def evalAt_def Let_def numeral_nat)

theorem wolfeLineSearch_results_witness:
  "dot [Num 1] [Num (- 1)] = Inr (Num (- 1))
   \<and> allTriesFail (searchEnvFor nanObjective [Num (- 1)] \<lparr>cg_x = [Num 0], fx = Num 0, fxprime = [Num 1]\<rparr>
        (Num (- 1))) 10 0 (Num 1) (Num 0) \<lparr>cg_x = [Num 0], fx = Num 0, fxprime = [Num 0]\<rparr>
   \<and> (\<exists>next'. wolfeLineSearch nanObjective [Num (- 1)] \<lparr>cg_x = [Num 0], fx = Num 0, fxprime = [Num 1]\<rparr>
        \<lparr>cg_x = [Num 0], fx = Num 0, fxprime = [Num 0]\<rparr> (Num 1) = Inr (Num 1024, next'))
   \<and> wolfeLineSearch squareObjective [Num (- 2)] \<lparr>cg_x = [Num 1], fx = Num 1, fxprime = [Num 2]\<rparr>
        \<lparr>cg_x = [Num 1], fx = Num 0, fxprime = [Num 1]\<rparr> (Num 1)
       = Inr (Num 0, \<lparr>cg_x = [Num 1], fx = Num 1, fxprime = [Num 2]\<rparr>)
   \<and> (Num 0 = Num 0
        \<or> accepted (searchEnvFor squareObjective [Num (- 2)]
              \<lparr>cg_x = [Num 1], fx = Num 1, fxprime = [Num 2]\<rparr> (Num (- 4))) (Num 0)
              \<lparr>cg_x = [Num 1], fx = Num 1, fxprime = [Num 2]\<rparr>
        \<or> Num 0 = orDefault (Num 1) (Num 1) * Num 1024)"
  using allTriesFail_nanObjective wolfeLineSearch_squareObjective
    wolfeLineSearch_results
      [of _ 0 _ _ _ "\<lparr>cg_x = [Num 0], fx = Num 0, fxprime = [Num 0]\<rparr>" _ _
          "\<lparr>cg_x = [Num 0], fx = Num 0, fxprime = [Num 1]\<rparr>" "[Num (- 1)]" "Num (- 1)"
          nanObjective "Num 1"]
    wolfeLineSearch_results
      [of _ 0 _ _ _ "\<lparr>cg_x = [Num 1], fx = Num 0, fxprime = [Num 1]\<rparr>" "Num 0"
          "\<lparr>cg_x = [Num 1], fx = Num 1, fxprime = [Num 2]\<rparr>"
          "\<lparr>cg_x = [Num 1], fx = Num 1, fxprime = [Num 2]\<rparr>" "[Num (- 2)]" "Num (- 4)"
          squareObjective "Num 1"]
  by (simp add: dot_def orDefault_def truthy_def)

text \<open>
  Claim C7 says that using up the 10 tries of the outer loop yields 0. For an objective
  whose value is NaN no test of the loop holds, the loop uses up its tries, and the
  result is the step 1024.
\<close>

theorem wolfeLineSearch_exhausted_counterexample:
  "allTriesFail (searchEnvFor nanObjective [Num (- 1)] \<lparr>cg_x = [Num 0], fx = Num 0, fxprime = [Num 1]\<rparr>
        (Num (- 1))) 10 0 (Num 1) (Num 0) \<lparr>cg_x = [Num 0], fx = Num 0, fxprime = [Num 0]\<rparr>
   \<and> map_sum id fst (wolfeLineSearch nanObjective [Num (- 1)]
         \<lparr>cg_x = [Num 0], fx = Num 0, fxprime = [Num 1]\<rparr>
         \<lparr>cg_x = [Num 0], fx = Num 0, fxprime = [Num 0]\<rparr> (Num 1)) = Inr (Num 1024)
   \<and> Num 1024 \<noteq> Num 0"
  by (simp add: wolfeLineSearch_def searchEnvFor_def dot_def orDefault_def truthy_def
      nanObjective_def evalAt_def Let_def numeral_nat)


section \<open>Arrays with holes\<close>

text \<open>
  An array made by \<open>new Array(n)\<close> has length \<open>n\<close> and no element: each index is a hole
  (\<open>None\<close>). Reading a hole, or an index past the end, gives \<open>undefined\<close>.
  \<open>Array.prototype.map\<close> calls its callback for the indices that hold an element, in
  order, and leaves the holes as holes. The callback may assign variables of the enclosing
  function: it takes and returns their state.
\<close>

definition newArray :: "nat \<Rightarrow> 'a option list" where
  "newArray n = replicate n None"

definition readSlot :: "'a option list \<Rightarrow> nat \<Rightarrow> 'a option" where
  "readSlot xs i = (if i < length xs then xs ! i else None)"

fun Array_map :: "('a \<Rightarrow> 's \<Rightarrow> error + 'b \<times> 's) \<Rightarrow> 'a option list \<Rightarrow> 's
    \<Rightarrow> error + 'b option list \<times> 's" where
  "Array_map cb [] s = Inr ([], s)"
| "Array_map cb (None # xs) s =
     (case Array_map cb xs s of
        Inl e \<Rightarrow> Inl e
      | Inr (ys, s') \<Rightarrow> Inr (None # ys, s'))"
| "Array_map cb (Some v # xs) s =
     (case cb v s of
        Inl e \<Rightarrow> Inl e
      | Inr (y, s1) \<Rightarrow>
          (case Array_map cb xs s1 of
             Inl e \<Rightarrow> Inl e
           | Inr (ys, s2) \<Rightarrow> Inr (Some y # ys, s2)))"

lemma Array_map_holes: "Array_map cb (replicate n None) s = Inr (replicate n None, s)"
  by (induction n) simp_all

lemma Array_map_newArray: "Array_map cb (newArray n) s = Inr (newArray n, s)"
  by (simp add: newArray_def Array_map_holes)

section \<open>The two conjugate gradient minimizers\<close>

text \<open>
  Neither \<open>conjugateGradient\<close> is a program that the host language accepts.

  The one of part_001 declares \<open>const temp;\<close>, a constant without an initializer: a syntax
  error. (It also declares \<open>a\<close> and \<open>next\<close> with \<open>const\<close> and assigns to them in the loop;
  such an assignment throws a TypeError when it is reached.) The one of bigRewrites.ts
  replaces the loop by \<open>history.map(...)\<close> on \<open>history = new Array(maxIter)\<close> and keeps
  the \<open>break\<close> of the loop inside the function that it passes to \<open>map\<close>, where no loop
  encloses it: a syntax error as well.

  A function whose text has a syntax error is rejected before any of it runs, so a call
  of either minimizer gives no point: the model of each is the error, for every
  objective, initial point and parameter.
\<close>

record cgparams =
  maxIterations :: "nat option"
  history :: bool




section \<open>Bisection\<close>

text \<open>
  For \<open>bisect\<close> the endpoints, the tolerance and the values of \<open>f\<close> are doubles that are
  numbers, written as the reals they denote; each arithmetic operation of the source
  rounds its result with \<open>fl\<close>. Both parameters are optional; \<open>v || d\<close> takes the default
  \<open>d\<close> for a parameter that is absent or 0. The default tolerance is the double that the
  literal \<open>1e-10\<close> denotes.
\<close>

record bisectParams =
  maxiterations :: "nat option"
  tolerance :: "real option"

definition maxiterationsOf :: "bisectParams \<Rightarrow> nat" where
  "maxiterationsOf p = (case maxiterations p of None \<Rightarrow> 100 | Some m \<Rightarrow> if m = 0 then 100 else m)"

definition toleranceOf :: "bisectParams \<Rightarrow> real" where
  "toleranceOf p =
     (case tolerance p of
        None \<Rightarrow> 7737125245533627 / 2 ^ 86
      | Some t \<Rightarrow> if t = 0 then 7737125245533627 / 2 ^ 86 else t)"

text \<open>The loop: \<open>n\<close> iterations remain.\<close>

fun bisectLoop :: "(real \<Rightarrow> real) \<Rightarrow> real \<Rightarrow> real \<Rightarrow> nat \<Rightarrow> real \<Rightarrow> real \<Rightarrow> real" where
  "bisectLoop f fa tol 0 a delta = fl (a + delta)"
| "bisectLoop f fa tol (Suc n) a delta =
     (let delta = fl (delta / 2);
          mid = fl (a + delta);
          fmid = f mid;
          a = (if fl (fmid * fa) \<ge> 0 then mid else a)
      in if \<bar>delta\<bar> < tol \<or> fmid = 0 then mid
         else bisectLoop f fa tol n a delta)"

definition bisect :: "(real \<Rightarrow> real) \<Rightarrow> real \<Rightarrow> real \<Rightarrow> bisectParams \<Rightarrow> error + real" where
  "bisect f a b parameters =
     (let maxit = maxiterationsOf parameters;
          tol = toleranceOf parameters;
          fa = f a;
          fb = f b;
          delta = fl (b - a)
      in if fl (fa * fb) > 0 then Inl BisectError
         else if fa = 0 then Inr a
         else if fb = 0 then Inr b
         else Inr (bisectLoop f fa tol maxit a delta))"

text \<open>The test that guards the error is on the rounded product of the two values.\<close>

lemma bisect_throws_iff: "bisect f a b parameters = Inl BisectError \<longleftrightarrow> fl (f a * f b) > 0"
  by (simp add: bisect_def Let_def)

lemma bisect_root_at_a: "f a = 0 \<Longrightarrow> bisect f a b parameters = Inr a"
  by (simp add: bisect_def Let_def fl_def roundEven_def)

text \<open>
  Claim C8 says that \<open>bisect\<close> throws when \<open>f(a)\<close> and \<open>f(b)\<close> have the same nonzero sign,
  and never returns a guessed root then. The test of the code is \<open>fa * fb > 0\<close>, and the
  product of two doubles of the same sign is 0 when it is below the smallest double. For
  the constant function \<open>2 ^ (- 600)\<close> on the bracket from 0 to \<open>2 ^ (- 33)\<close>, with no
  parameters, both values are positive; the product \<open>2 ^ (- 1200)\<close> rounds to 0, no
  error is thrown, and the first midpoint \<open>2 ^ (- 34)\<close> is returned as the root.
\<close>

theorem bisect_same_sign_no_error:
  "bisect (\<lambda>x. 1 / 2 ^ 600) 0 (1 / 2 ^ 33) \<lparr>maxiterations = None, tolerance = None\<rparr>
     = Inr (1 / 2 ^ 34)
   \<and> (0::real) < (\<lambda>x. 1 / 2 ^ 600) 0 * (\<lambda>x. 1 / 2 ^ 600) (1 / 2 ^ 33)"
proof -
  have p: "fl (1 / 2 ^ 600 * (1 / 2 ^ 600)) = 0"
    using fl_tiny[of "1 / 2 ^ 600 * (1 / 2 ^ 600)"] by (simp add: roundEven_def)
  have d0: "fl (1 / 2 ^ 33) = 1 / 2 ^ 33"
    using fl_lt_one[of "1 / 2 ^ 33" 33] by (simp add: roundEven_def)
  have d1: "fl (1 / 2 ^ 34) = 1 / 2 ^ 34"
    using fl_lt_one[of "1 / 2 ^ 34" 34] by (simp add: roundEven_def)
  have h: "(1 / 2 ^ 33 :: real) / 2 = 1 / 2 ^ 34"
    by simp
  have t: "\<bar>1 / 2 ^ 34 :: real\<bar> < 7737125245533627 / 2 ^ 86"
    by simp
  have m: "maxiterationsOf \<lparr>maxiterations = None, tolerance = None\<rparr> = Suc 99"
    by (simp add: maxiterationsOf_def)
  have loop: "bisectLoop (\<lambda>x. 1 / 2 ^ 600) (1 / 2 ^ 600) (7737125245533627 / 2 ^ 86) (Suc 99) 0
      (1 / 2 ^ 33) = 1 / 2 ^ 34"
    unfolding bisectLoop.simps Let_def h add_0 d1 using t by (simp only: if_True simp_thms)
  have "bisect (\<lambda>x. 1 / 2 ^ 600) 0 (1 / 2 ^ 33) \<lparr>maxiterations = None, tolerance = None\<rparr>
     = Inr (1 / 2 ^ 34)"
    unfolding bisect_def Let_def m diff_zero d0 p loop
    using loop by (simp add: toleranceOf_def loop del: bisectLoop.simps)
  then show ?thesis
    by simp
qed

section \<open>The path of a circle and its inverse\<close>

text \<open>
  \<open>circlePath\<close> joins strings and numbers with a space; \<open>join\<close> converts each number to
  a string. That conversion and \<open>parseFloat\<close> belong to the host language: they are
  parameters, \<open>toStr\<close> and \<open>parseFloat\<close>. A token that does not exist is \<open>undefined\<close>, which
  \<open>parseFloat\<close> reads as NaN.
\<close>

fun join :: "string \<Rightarrow> string list \<Rightarrow> string" where
  "join sep [] = []"
| "join sep [t] = t"
| "join sep (t # u # ts) = t @ sep @ join sep (u # ts)"

text \<open>\<open>split\<close> at every occurrence of one character; the result is never empty.\<close>

fun split :: "char \<Rightarrow> string \<Rightarrow> string list" where
  "split c [] = [[]]"
| "split c (x # xs) =
     (if x = c then [] # split c xs
      else (case split c xs of [] \<Rightarrow> [[x]] | t # ts \<Rightarrow> (x # t) # ts))"

definition circlePath :: "(real \<Rightarrow> string) \<Rightarrow> circle \<Rightarrow> string" where
  "circlePath toStr c =
     (let x = px c; y = py c; radius = radius c
      in join '' ''
           [[CHR 0x0A, CHR ''M''], toStr x, toStr y,
            [CHR 0x0A, CHR ''m''], toStr (- radius), toStr 0,
            [CHR 0x0A, CHR ''a''], toStr radius, toStr radius, toStr 0, toStr 1, toStr 0,
              toStr (radius * 2), toStr 0,
            [CHR 0x0A, CHR ''a''], toStr radius, toStr radius, toStr 0, toStr 1, toStr 0,
              toStr (- radius * 2), toStr 0])"

definition token :: "(string \<Rightarrow> jsnum) \<Rightarrow> string list \<Rightarrow> nat \<Rightarrow> jsnum" where
  "token parseFloat tokens k = (if k < length tokens then parseFloat (tokens ! k) else NaN)"

text \<open>The result: the fields \<open>x\<close>, \<open>y\<close> and \<open>radius\<close> of the circle returned.\<close>

definition circleFromPath :: "(string \<Rightarrow> jsnum) \<Rightarrow> string \<Rightarrow> jsnum \<times> jsnum \<times> jsnum" where
  "circleFromPath parseFloat path =
     (let tokens = split CHR '' '' path
      in (token parseFloat tokens 1, token parseFloat tokens 2, - token parseFloat tokens 4))"

lemma split_nonempty: "split c s \<noteq> []"
  by (induction s) (auto split: list.splits)

lemma split_token: "c \<notin> set t \<Longrightarrow> split c (t @ c # rest) = t # split c rest"
  by (induction t) (auto split: list.splits)

text \<open>
  Claim C9: decoding with \<open>circleFromPath\<close> the path that \<open>circlePath\<close> produces recovers
  \<open>x\<close>, \<open>y\<close> and \<open>radius\<close>. \<open>D\<close> is a set of numbers on which the conversion of a number
  to a string has no space and is inverted by \<open>parseFloat\<close> (for the host language: the
  finite numbers); the claim is proved for every circle with \<open>x\<close>, \<open>y\<close> and \<open>-radius\<close> in
  \<open>D\<close>.
\<close>

theorem circlePath_roundtrip:
  assumes inv: "\<forall>v\<in>D. parseFloat (toStr v) = Num v \<and> CHR '' '' \<notin> set (toStr v)"
    and mem: "px c \<in> D" "py c \<in> D" "- radius c \<in> D"
  shows "circleFromPath parseFloat (circlePath toStr c) = (Num (px c), Num (py c), Num (radius c))"
proof -
  have sp: "CHR '' '' \<notin> set (toStr (px c))" "CHR '' '' \<notin> set (toStr (py c))"
    "CHR '' '' \<notin> set (toStr (- radius c))"
    using inv mem by auto
  have pf: "parseFloat (toStr (px c)) = Num (px c)" "parseFloat (toStr (py c)) = Num (py c)"
    "parseFloat (toStr (- radius c)) = Num (- radius c)"
    using inv mem by auto
  obtain rest where path: "circlePath toStr c =
      [CHR 0x0A, CHR ''M''] @ CHR '' '' # toStr (px c) @ CHR '' '' # toStr (py c) @ CHR '' '' #
      [CHR 0x0A, CHR ''m''] @ CHR '' '' # toStr (- radius c) @ CHR '' '' # rest"
    by (simp add: circlePath_def Let_def)
  have "\<exists>ts. split CHR '' '' (circlePath toStr c) =
      [CHR 0x0A, CHR ''M''] # toStr (px c) # toStr (py c) # [CHR 0x0A, CHR ''m'']
        # toStr (- radius c) # ts"
    unfolding path using sp by (simp add: split_token)
  then obtain ts where "split CHR '' '' (circlePath toStr c) =
      [CHR 0x0A, CHR ''M''] # toStr (px c) # toStr (py c) # [CHR 0x0A, CHR ''m'']
        # toStr (- radius c) # ts"
    by blast
  then show ?thesis
    by (simp add: circleFromPath_def token_def pf)
qed

text \<open>A conversion for the numbers -1, 0 and 1, and its inverse.\<close>

definition smallToStr :: "real \<Rightarrow> string" where
  "smallToStr v = (if v = 0 then ''0'' else if v = 1 then ''1'' else if v = - 1 then ''-1'' else ''2'')"

definition smallParseFloat :: "string \<Rightarrow> jsnum" where
  "smallParseFloat s =
     (if s = ''0'' then Num 0 else if s = ''1'' then Num 1 else if s = ''-1'' then Num (- 1)
      else NaN)"

theorem circlePath_roundtrip_witness:
  "circleFromPath smallParseFloat (circlePath smallToStr \<lparr>px = 0, py = 1, radius = 1\<rparr>)
     = (Num 0, Num 1, Num 1)"
proof -
  have inv: "\<forall>v\<in>{0, 1, - 1}. smallParseFloat (smallToStr v) = Num v
      \<and> CHR '' '' \<notin> set (smallToStr v)"
    by (simp add: smallParseFloat_def smallToStr_def)
  have mem: "px \<lparr>px = 0, py = 1, radius = 1\<rparr> \<in> {0, 1, - 1 :: real}"
    "py \<lparr>px = 0, py = 1, radius = 1\<rparr> \<in> {0, 1, - 1 :: real}"
    "- radius \<lparr>px = 0, py = 1, radius = 1\<rparr> \<in> {0, 1, - 1 :: real}"
    by simp_all
  from circlePath_roundtrip[OF inv mem] show ?thesis
    by simp
qed


section \<open>Nelder-Mead\<close>

text \<open>
  A parameter object is a map from keys to numbers; a key may be absent. The object
  spread \<open>{...p, ...q}\<close> has the keys of both, with the value of \<open>q\<close> where both have
  the key. Reading an absent key gives \<open>undefined\<close>, which compares like NaN.
\<close>

type_synonym obj = "string \<rightharpoonup> real"

definition spread :: "obj \<Rightarrow> obj \<Rightarrow> obj" where
  "spread p q = p ++ q"

definition getNum :: "obj \<Rightarrow> string \<Rightarrow> jsnum" where
  "getNum ob k = (case ob k of None \<Rightarrow> NaN | Some v \<Rightarrow> Num v)"

definition defaultParameters :: obj where
  "defaultParameters =
     [''nonZeroDelta'' \<mapsto> 105 / 100, ''zeroDelta'' \<mapsto> 1 / 10 ^ 3,
      ''minErrorDelta'' \<mapsto> 1 / 10 ^ 6, ''minTolerance'' \<mapsto> 1 / 10 ^ 5,
      ''rho'' \<mapsto> 1, ''chi'' \<mapsto> 2, ''psi'' \<mapsto> - (1 / 2), ''sigma'' \<mapsto> 1 / 2]"

text \<open>The object that \<open>nelderMead2d\<close> takes its settings from:
  \<open>{ ...parameters, ...defaultParameters }\<close>.\<close>

definition mergedParameters :: "obj \<Rightarrow> obj" where
  "mergedParameters parameters = spread parameters defaultParameters"

text \<open>A vertex of the simplex: its coordinates, the value \<open>fx\<close> of the objective there and
  its \<open>id\<close>. The simplex is \<open>new Array(N + 1)\<close>: a list of slots, each a vertex or a hole.\<close>

record simplexPoint =
  coordinates :: "jsnum list"
  sp_fx :: jsnum
  sp_id :: nat

type_synonym simplex = "simplexPoint option list"

text \<open>
  The first loop is to fill the slots 1 to \<open>N\<close>. For each \<open>i\<close> it copies the initial guess,
  moves coordinate \<open>i\<close>, and then assigns \<open>simplex[i + 1].coordinates = point\<close>: it reads
  the slot \<open>i + 1\<close> and sets a property of what it finds there. On a hole it finds
  \<open>undefined\<close>, and setting a property of \<open>undefined\<close> throws a TypeError. \<open>initSimplex\<close> is
  that loop over the indices that remain.
\<close>

fun initSimplex :: "(jsnum list \<Rightarrow> jsnum) \<Rightarrow> obj \<Rightarrow> jsnum list \<Rightarrow> nat list \<Rightarrow> simplex
    \<Rightarrow> error + simplex" where
  "initSimplex f settings initialGuess [] simplex = Inr simplex"
| "initSimplex f settings initialGuess (i # is) simplex =
     (let point = shallowCopy initialGuess;
          point = point[i := (if truthy (readAt point i)
                              then readAt point i * getNum settings ''nonZeroDelta''
                              else getNum settings ''zeroDelta'')]
      in case readSlot simplex (i + 1) of
           None \<Rightarrow> Inl TypeError
         | Some v \<Rightarrow>
             initSimplex f settings initialGuess is
               (simplex[i + 1 := Some (v\<lparr>coordinates := point, sp_fx := f point, sp_id := i + 1\<rparr>)]))"

text \<open>\<open>simplex.sort(sortOrder)\<close> with \<open>sortOrder = (a, b) => a.fx - b.fx\<close>: the sort is
  stable, a result of the comparison that is not below 0 keeps the order, and the holes
  go to the end.\<close>

definition sortOrder :: "simplexPoint \<Rightarrow> simplexPoint \<Rightarrow> jsnum" where
  "sortOrder a b = sp_fx a - sp_fx b"

fun insertVertex :: "simplexPoint \<Rightarrow> simplexPoint list \<Rightarrow> simplexPoint list" where
  "insertVertex v [] = [v]"
| "insertVertex v (w # ws) = (if sortOrder w v > Num 0 then v # w # ws else w # insertVertex v ws)"

definition sortSimplex :: "simplex \<Rightarrow> simplex" where
  "sortSimplex s =
     map Some (foldl (\<lambda>acc v. insertVertex v acc) [] (List.map_filter id s))
     @ filter (\<lambda>v. v = None) s"

text \<open>
  The main loop runs its body at most \<open>maxIterations\<close> times; the body ends the loop with
  \<open>break\<close> (\<open>True\<close>), goes on (\<open>False\<close>) or throws. The body is a parameter of the model: no
  call reaches it, see \<open>nelderMead2d_body_never_runs\<close>.
\<close>

fun mainLoop :: "(simplex \<Rightarrow> error + simplex \<times> bool) \<Rightarrow> nat \<Rightarrow> simplex \<Rightarrow> error + simplex" where
  "mainLoop body 0 simplex = Inr simplex"
| "mainLoop body (Suc n) simplex =
     (case body simplex of
        Inl e \<Rightarrow> Inl e
      | Inr (simplex, stop) \<Rightarrow> if stop then Inr simplex else mainLoop body n simplex)"

record solution =
  value_at_peak :: jsnum
  index_at_peak :: simplexPoint

definition nelderMead2d :: "(obj \<Rightarrow> simplex \<Rightarrow> error + simplex \<times> bool) \<Rightarrow> (jsnum list \<Rightarrow> jsnum)
    \<Rightarrow> jsnum list \<Rightarrow> obj \<Rightarrow> error + solution" where
  "nelderMead2d body f initialGuess parameters =
     (let settings = mergedParameters parameters;
          maxIterations = length initialGuess * 200;
          N = length initialGuess;
          simplex = newArray (N + 1);
          simplex = simplex[0 := Some \<lparr>coordinates = initialGuess, sp_fx = f initialGuess, sp_id = 0\<rparr>]
      in case initSimplex f settings initialGuess [0 ..< N] simplex of
           Inl e \<Rightarrow> Inl e
         | Inr simplex \<Rightarrow>
             (case mainLoop (body settings) maxIterations simplex of
                Inl e \<Rightarrow> Inl e
              | Inr simplex \<Rightarrow>
                  (case readSlot (sortSimplex simplex) 0 of
                     None \<Rightarrow> Inl TypeError
                   | Some best \<Rightarrow> Inr \<lparr>value_at_peak = sp_fx best, index_at_peak = best\<rparr>)))"

lemma mergedParameters_default:
  "defaultParameters k = Some v \<Longrightarrow> mergedParameters parameters k = Some v"
  by (simp add: mergedParameters_def spread_def map_add_def)

lemma merged_minErrorDelta: "getNum (mergedParameters parameters) ''minErrorDelta'' = Num (1 / 10 ^ 6)"
  by (simp add: getNum_def mergedParameters_def spread_def map_add_def defaultParameters_def)

lemma merged_minTolerance: "getNum (mergedParameters parameters) ''minTolerance'' = Num (1 / 10 ^ 5)"
  by (simp add: getNum_def mergedParameters_def spread_def map_add_def defaultParameters_def)

lemma readSlot_fresh: "readSlot ((newArray (Suc (Suc n)))[0 := v]) (Suc 0) = None"
  by (simp add: readSlot_def newArray_def)

lemma initSimplex_throws:
  "initSimplex f settings initialGuess (0 # is) ((newArray (Suc (Suc n)))[0 := v]) = Inl TypeError"
  by (simp add: readSlot_fresh Let_def del: list_update.simps replicate.simps)

lemma nelderMead2d_throws: "nelderMead2d body f (x # xs) parameters = Inl TypeError"
proof -
  have "[0 ..< length (x # xs)] = 0 # [1 ..< length (x # xs)]"
    by (simp add: upt_rec)
  then show ?thesis
    unfolding nelderMead2d_def Let_def
    by (simp add: initSimplex_throws del: initSimplex.simps upt.simps)
qed

lemma nelderMead2d_empty:
  "nelderMead2d body f [] parameters
     = Inr \<lparr>value_at_peak = f [], index_at_peak = \<lparr>coordinates = [], sp_fx = f [], sp_id = 0\<rparr>\<rparr>"
  by (simp add: nelderMead2d_def newArray_def sortSimplex_def readSlot_def List.map_filter_def)

lemma nelderMead2d_body_never_runs:
  "nelderMead2d body f initialGuess parameters = nelderMead2d body' f initialGuess parameters"
  by (cases initialGuess) (simp_all add: nelderMead2d_throws nelderMead2d_empty)

text \<open>
  Claim C6 says that the minimizer stops iterating exactly when the gap of the objective
  values is below the \<open>minErrorDelta\<close> that the caller configured and the spread of the
  coordinates below the caller's \<open>minTolerance\<close>, or after \<open>n \<times> 200\<close> iterations. The
  code performs no iteration: for every initial guess with a coordinate the set-up of
  the simplex throws a TypeError, whatever the objective, the parameters and the body of
  the loop. And the tolerances that the loop would compare with are not the caller's: in
  \<open>{ ...parameters, ...defaultParameters }\<close> the defaults win, so that for the parameters
  that \<open>computeTextCentre\<close> passes (\<open>minErrorDelta\<close> 1e-10) the setting is 1e-6.
\<close>

theorem nelderMead2d_never_iterates:
  "nelderMead2d body f (x # xs) parameters = Inl TypeError
   \<and> getNum [''maxIterations'' \<mapsto> 500, ''minErrorDelta'' \<mapsto> 1 / 10 ^ 10] ''minErrorDelta''
       = Num (1 / 10 ^ 10)
   \<and> getNum (mergedParameters [''maxIterations'' \<mapsto> 500, ''minErrorDelta'' \<mapsto> 1 / 10 ^ 10])
       ''minErrorDelta'' = Num (1 / 10 ^ 6)"
proof -
  have "getNum [''maxIterations'' \<mapsto> 500, ''minErrorDelta'' \<mapsto> 1 / 10 ^ 10] ''minErrorDelta''
       = Num (1 / 10 ^ 10)"
    by (simp add: getNum_def)
  then show ?thesis
    by (simp add: nelderMead2d_throws merged_minErrorDelta)
qed

section \<open>The anchor point of a label\<close>

text \<open>\<open>circleMargin\<close> reads \<open>interior[0]\<close> first; on an empty list that read throws.
  \<open>marginFrom\<close> is the function on a list with first element \<open>c0\<close>.\<close>

definition marginFrom :: "circle \<Rightarrow> circle list \<Rightarrow> circle list \<Rightarrow> point2d \<Rightarrow> real" where
  "marginFrom c0 cs exterior current =
     (let margin = radius c0 - distance c0 current;
          margin = foldl (\<lambda>margin c. let m = radius c - distance c current
                                 in if m \<le> margin then m else margin) margin cs;
          margin = foldl (\<lambda>margin c. let m = distance c current - radius c
                                 in if m \<le> margin then m else margin) margin exterior
      in margin)"

definition circleMargin :: "point2d \<Rightarrow> circle list \<Rightarrow> circle list \<Rightarrow> error + real" where
  "circleMargin current interior exterior =
     (case interior of
        [] \<Rightarrow> Inl TypeError
      | c0 # cs \<Rightarrow> Inr (marginFrom c0 cs exterior current))"

definition samplePoints :: "circle list \<Rightarrow> point2d list" where
  "samplePoints interior =
     concat (map (\<lambda>c.
       [\<lparr>px = px c, py = py c\<rparr>,
        \<lparr>px = px c + radius c / 2, py = py c\<rparr>,
        \<lparr>px = px c - radius c / 2, py = py c\<rparr>,
        \<lparr>px = px c, py = py c + radius c / 2\<rparr>,
        \<lparr>px = px c, py = py c - radius c / 2\<rparr>]) interior)"

text \<open>The sample with the largest margin, of equal margins the later one, for the
  interior list \<open>c0 # cs\<close>. The first sample is the centre of \<open>c0\<close>.\<close>

definition bestSample :: "circle \<Rightarrow> circle list \<Rightarrow> circle list \<Rightarrow> point2d" where
  "bestSample c0 cs exterior =
     fst (foldl (\<lambda>(initial, margin) q.
                   (let m = marginFrom c0 cs exterior q
                    in if m \<ge> margin then (q, m) else (initial, margin)))
           (\<lparr>px = px c0, py = py c0\<rparr>, marginFrom c0 cs exterior \<lparr>px = px c0, py = py c0\<rparr>)
           (tl (samplePoints (c0 # cs))))"

text \<open>The objective that is handed to the minimizer: \<open>p => -1 * circleMargin({x: p[0],
  y: p[1]}, interior, exterior)\<close>, for the interior list \<open>c0 # cs\<close>.\<close>

definition negMargin :: "circle \<Rightarrow> circle list \<Rightarrow> circle list \<Rightarrow> jsnum list \<Rightarrow> jsnum" where
  "negMargin c0 cs exterior p =
     (case (readAt p 0, readAt p 1) of
        (Num x, Num y) \<Rightarrow> Num (- 1 * marginFrom c0 cs exterior \<lparr>px = x, py = y\<rparr>)
      | _ \<Rightarrow> NaN)"

text \<open>The anchor returned: a point, with the mark \<open>disjoint\<close> in one case.\<close>

record anchor = point2d +
  disjoint :: bool

text \<open>
  \<open>computeTextCentre\<close>, up to the statement \<open>let ret = {x: solution[0], y: solution[1]}\<close>.
  \<open>solution\<close> is the property \<open>x\<close> of what \<open>nelderMead2d\<close> returns, an object with the
  properties \<open>value_at_peak\<close> and \<open>index_at_peak\<close> only: it is \<open>undefined\<close>, and reading
  \<open>solution[0]\<close> throws a TypeError. So every path ends in an error before the check of
  the solution and the fallbacks, which are not part of the model.
\<close>

definition computeTextCentre :: "(obj \<Rightarrow> simplex \<Rightarrow> error + simplex \<times> bool) \<Rightarrow> circle list
    \<Rightarrow> circle list \<Rightarrow> error + anchor" where
  "computeTextCentre body interior exterior =
     (case interior of
        [] \<Rightarrow> Inl TypeError
      | c0 # cs \<Rightarrow>
          (let initial = bestSample c0 cs exterior
           in case nelderMead2d body (negMargin c0 cs exterior) [Num (px initial), Num (py initial)]
                     [''maxIterations'' \<mapsto> 500, ''minErrorDelta'' \<mapsto> 1 / 10 ^ 10] of
                Inl e \<Rightarrow> Inl e
              | Inr solution \<Rightarrow> Inl TypeError))"

lemma computeTextCentre_throws: "computeTextCentre body interior exterior = Inl TypeError"
  by (cases interior) (simp_all add: computeTextCentre_def nelderMead2d_throws Let_def)

text \<open>
  The check that follows in the source, which no call reaches. It tests the interior
  circles with \<open>distance(ret, i)\<close>, where \<open>i\<close> is the counter of the loops before, a
  number: a number has no properties \<open>x\<close> and \<open>y\<close>, and the distance to it is NaN.
\<close>

definition distanceToNumber :: "point2d \<Rightarrow> nat \<Rightarrow> jsnum" where
  "distanceToNumber p i = NaN"

definition valid :: "point2d \<Rightarrow> nat \<Rightarrow> circle list \<Rightarrow> circle list \<Rightarrow> bool" where
  "valid ret i interior exterior =
     (list_all (\<lambda>item. distanceToNumber ret i > Num (radius item)) interior
      \<and> list_all (\<lambda>item. distance ret item < radius item) exterior)"

lemma valid_never: "interior \<noteq> [] \<Longrightarrow> \<not> valid ret i interior exterior"
  by (cases interior) (simp_all add: valid_def distanceToNumber_def)

section \<open>The overlap of two circles as a function of the distance\<close>

text \<open>
  For the proofs the area of a circular segment is written in terms of the distance \<open>a\<close>
  from the centre to the chord, \<open>a = r - width\<close>; \<open>chordOffset\<close> is that distance for the
  first of two circles at distance \<open>d\<close>, and \<open>lens\<close> the sum of the two segments.
\<close>

definition segment :: "real \<Rightarrow> real \<Rightarrow> real" where
  "segment r a = r\<^sup>2 * arccos (a / r) - a * sqrt (r\<^sup>2 - a\<^sup>2)"

definition chordOffset :: "real \<Rightarrow> real \<Rightarrow> real \<Rightarrow> real" where
  "chordOffset r1 r2 d = (d * d - r2 * r2 + r1 * r1) / (2 * d)"

definition lens :: "real \<Rightarrow> real \<Rightarrow> real \<Rightarrow> real" where
  "lens r1 r2 d = segment r1 (chordOffset r1 r2 d) + segment r2 (chordOffset r2 r1 d)"

lemma circleArea_segment: "r \<noteq> 0 \<Longrightarrow> circleArea r (r - a) = segment r a"
proof -
  assume r: "r \<noteq> 0"
  have 1: "1 - (r - a) / r = a / r"
    using r by (simp add: field_simps)
  have 2: "(r - a) * (2 * r - (r - a)) = r\<^sup>2 - a\<^sup>2"
    by (simp add: power2_eq_square algebra_simps)
  have 3: "r - (r - a) = a" by simp
  show ?thesis
    unfolding circleArea_def segment_def 1 2 3 power2_eq_square ..
qed

lemma circleOverlap_lens:
  assumes "r1 \<noteq> 0" "r2 \<noteq> 0" "\<not> d \<ge> r1 + r2" "\<not> d \<le> \<bar>r1 - r2\<bar>"
  shows "circleOverlap r1 r2 d = lens r1 r2 d"
proof -
  have "circleOverlap r1 r2 d =
      circleArea r1 (r1 - chordOffset r1 r2 d) + circleArea r2 (r2 - chordOffset r2 r1 d)"
    using assms(3,4) unfolding circleOverlap_def chordOffset_def Let_def by simp
  also have "\<dots> = lens r1 r2 d"
    unfolding lens_def circleArea_segment[OF assms(1)] circleArea_segment[OF assms(2)] ..
  finally show ?thesis .
qed

lemma sqrt_unit: "0 < r \<Longrightarrow> sqrt (1 - (a / r)\<^sup>2) = sqrt (r\<^sup>2 - a\<^sup>2) / r"
proof -
  assume r: "0 < r"
  have "1 - (a / r)\<^sup>2 = (r\<^sup>2 - a\<^sup>2) / r\<^sup>2"
    using r by (simp add: field_simps power2_eq_square)
  then show ?thesis
    using r by (simp add: real_sqrt_divide)
qed

lemma sq_less_bounds:
  fixes a r :: real
  assumes "0 < r" "a\<^sup>2 < r\<^sup>2"
  shows "- r < a \<and> a < r"
proof -
  have "\<bar>a\<bar>\<^sup>2 < r\<^sup>2"
    using assms(2) by simp
  then have "\<bar>a\<bar> < r"
    by (rule power2_less_imp_less) (use assms(1) in simp)
  then show ?thesis
    by auto
qed

lemma sq_le_bounds:
  fixes a r :: real
  assumes "0 \<le> r" "a\<^sup>2 \<le> r\<^sup>2"
  shows "- r \<le> a \<and> a \<le> r"
proof -
  have "\<bar>a\<bar>\<^sup>2 \<le> r\<^sup>2"
    using assms(2) by simp
  then have "\<bar>a\<bar> \<le> r"
    by (rule power2_le_imp_le) (use assms(1) in simp)
  then show ?thesis
    by auto
qed

lemma DERIV_segment:
  assumes r: "0 < r" and a: "a\<^sup>2 < r\<^sup>2"
  shows "((\<lambda>a. segment r a) has_real_derivative (- 2 * sqrt (r\<^sup>2 - a\<^sup>2))) (at a)"
proof -
  define s where "s = sqrt (r\<^sup>2 - a\<^sup>2)"
  have s: "0 < s"
    using a by (simp add: s_def)
  have ss: "s * s = r\<^sup>2 - a\<^sup>2"
    using a by (simp add: s_def)
  have ar: "- 1 < a / r" "a / r < 1"
    using sq_less_bounds[OF r a] r by (auto simp: field_simps)
  have su: "sqrt (1 - (a / r)\<^sup>2) = s / r"
    using sqrt_unit[OF r] by (simp add: s_def)
  have D1: "((\<lambda>a. arccos (a / r)) has_real_derivative (inverse (- sqrt (1 - (a / r)\<^sup>2)) * (1 / r))) (at a)"
    by (rule DERIV_chain2[where f = arccos and g = "\<lambda>a. a / r", OF DERIV_arccos[OF ar]])
       (use r in \<open>auto intro!: derivative_eq_intros\<close>)
  have D2: "((\<lambda>a. sqrt (r\<^sup>2 - a\<^sup>2)) has_real_derivative ((inverse (sqrt (r\<^sup>2 - a\<^sup>2)) / 2) * (- 2 * a))) (at a)"
    by (rule DERIV_chain2[where f = sqrt and g = "\<lambda>a. r\<^sup>2 - a\<^sup>2", OF DERIV_real_sqrt])
       (use a in \<open>auto intro!: derivative_eq_intros\<close>)
  have D3: "((\<lambda>a. a * sqrt (r\<^sup>2 - a\<^sup>2)) has_real_derivative
      (1 * sqrt (r\<^sup>2 - a\<^sup>2) + ((inverse (sqrt (r\<^sup>2 - a\<^sup>2)) / 2) * (- 2 * a)) * a)) (at a)"
    using DERIV_mult[OF DERIV_ident D2] by (simp add: mult.commute)
  have D: "((\<lambda>a. r\<^sup>2 * arccos (a / r) - a * sqrt (r\<^sup>2 - a\<^sup>2)) has_real_derivative
      (r\<^sup>2 * (inverse (- sqrt (1 - (a / r)\<^sup>2)) * (1 / r))
       - (1 * sqrt (r\<^sup>2 - a\<^sup>2) + ((inverse (sqrt (r\<^sup>2 - a\<^sup>2)) / 2) * (- 2 * a)) * a))) (at a)"
    by (rule DERIV_diff[OF DERIV_cmult[OF D1] D3])
  have val: "r\<^sup>2 * (inverse (- sqrt (1 - (a / r)\<^sup>2)) * (1 / r))
       - (1 * sqrt (r\<^sup>2 - a\<^sup>2) + ((inverse (sqrt (r\<^sup>2 - a\<^sup>2)) / 2) * (- 2 * a)) * a)
     = - 2 * s"
  proof -
    have "r\<^sup>2 * (inverse (- (s / r)) * (1 / r)) - (1 * s + ((inverse s / 2) * (- 2 * a)) * a)
        = - (r\<^sup>2 - a\<^sup>2) / s - s"
      using r s by (simp add: field_simps power2_eq_square)
    also have "\<dots> = - 2 * s"
      using s by (simp add: ss[symmetric])
    finally show ?thesis
      by (simp add: su s_def[symmetric])
  qed
  show ?thesis
    unfolding segment_def s_def[symmetric] using D unfolding val .
qed

lemma chordOffset_sum: "d \<noteq> 0 \<Longrightarrow> chordOffset r1 r2 d + chordOffset r2 r1 d = d"
  by (simp add: chordOffset_def field_simps)

lemma chord_heron:
  assumes "d \<noteq> 0"
  shows "r1\<^sup>2 - (chordOffset r1 r2 d)\<^sup>2 = ((r1 + r2)\<^sup>2 - d\<^sup>2) * (d\<^sup>2 - (r1 - r2)\<^sup>2) / (4 * d\<^sup>2)"
proof -
  have "(r1\<^sup>2 - (chordOffset r1 r2 d)\<^sup>2) * (4 * d\<^sup>2) = ((r1 + r2)\<^sup>2 - d\<^sup>2) * (d\<^sup>2 - (r1 - r2)\<^sup>2)"
  proof -
    have "(chordOffset r1 r2 d)\<^sup>2 * (4 * d\<^sup>2) = (d\<^sup>2 - r2\<^sup>2 + r1\<^sup>2)\<^sup>2"
      using assms by (simp add: chordOffset_def power2_eq_square field_simps)
    then have "(r1\<^sup>2 - (chordOffset r1 r2 d)\<^sup>2) * (4 * d\<^sup>2) = 4 * r1\<^sup>2 * d\<^sup>2 - (d\<^sup>2 - r2\<^sup>2 + r1\<^sup>2)\<^sup>2"
      by (simp add: algebra_simps)
    also have "\<dots> = ((r1 + r2)\<^sup>2 - d\<^sup>2) * (d\<^sup>2 - (r1 - r2)\<^sup>2)"
      by (simp add: power2_eq_square algebra_simps)
    finally show ?thesis .
  qed
  then show ?thesis
    using assms by (simp add: field_simps)
qed

lemma chord_equal:
  assumes "d \<noteq> 0"
  shows "r1\<^sup>2 - (chordOffset r1 r2 d)\<^sup>2 = r2\<^sup>2 - (chordOffset r2 r1 d)\<^sup>2"
  unfolding chord_heron[OF assms] by (simp add: power2_eq_square algebra_simps)

lemma chord_strict:
  assumes "\<bar>r1 - r2\<bar> < d" "d < r1 + r2"
  shows "(chordOffset r1 r2 d)\<^sup>2 < r1\<^sup>2"
proof -
  have d: "0 < d" using assms(1) by linarith
  have A: "0 < (r1 + r2)\<^sup>2 - d\<^sup>2"
  proof -
    have "d\<^sup>2 < (r1 + r2)\<^sup>2"
      using d assms(2) by (intro power_strict_mono) auto
    then show ?thesis by simp
  qed
  have B: "0 < d\<^sup>2 - (r1 - r2)\<^sup>2"
  proof -
    have "\<bar>r1 - r2\<bar>\<^sup>2 < d\<^sup>2"
      using assms(1) by (intro power_strict_mono) auto
    then show ?thesis by simp
  qed
  have "0 < ((r1 + r2)\<^sup>2 - d\<^sup>2) * (d\<^sup>2 - (r1 - r2)\<^sup>2) / (4 * d\<^sup>2)"
    using A B d by simp
  then show ?thesis
    using chord_heron[of d r1 r2] d by simp
qed

lemma chord_le:
  assumes "\<bar>r1 - r2\<bar> \<le> d" "d \<le> r1 + r2" "d \<noteq> 0"
  shows "(chordOffset r1 r2 d)\<^sup>2 \<le> r1\<^sup>2"
proof -
  have d: "0 < d" using assms(1,3) by linarith
  have A: "0 \<le> (r1 + r2)\<^sup>2 - d\<^sup>2"
  proof -
    have "d\<^sup>2 \<le> (r1 + r2)\<^sup>2"
      using d assms(2) by (intro power_mono) auto
    then show ?thesis by simp
  qed
  have B: "0 \<le> d\<^sup>2 - (r1 - r2)\<^sup>2"
  proof -
    have "\<bar>r1 - r2\<bar>\<^sup>2 \<le> d\<^sup>2"
      using assms(1) by (intro power_mono) auto
    then show ?thesis by simp
  qed
  have "0 \<le> ((r1 + r2)\<^sup>2 - d\<^sup>2) * (d\<^sup>2 - (r1 - r2)\<^sup>2) / (4 * d\<^sup>2)"
    using A B d by simp
  then show ?thesis
    using chord_heron[of d r1 r2] d by simp
qed

lemma DERIV_chordOffset:
  assumes "d \<noteq> 0"
  shows "(chordOffset r1 r2 has_real_derivative (1 / 2 - (r1\<^sup>2 - r2\<^sup>2) / (2 * d\<^sup>2))) (at d)"
proof -
  have "((\<lambda>d. (d * d - r2 * r2 + r1 * r1) / (2 * d)) has_real_derivative
      (((1 * d + 1 * d) * (2 * d) - (d * d - r2 * r2 + r1 * r1) * 2) / ((2 * d) * (2 * d)))) (at d)"
    using assms by (auto intro!: derivative_eq_intros)
  moreover have "((1 * d + 1 * d) * (2 * d) - (d * d - r2 * r2 + r1 * r1) * 2) / ((2 * d) * (2 * d))
      = 1 / 2 - (r1\<^sup>2 - r2\<^sup>2) / (2 * d\<^sup>2)"
    using assms by (simp add: field_simps power2_eq_square)
  ultimately show ?thesis
    unfolding chordOffset_def[abs_def] by simp
qed

lemma DERIV_lens:
  assumes r: "0 < r1" "0 < r2" and d: "\<bar>r1 - r2\<bar> < d" "d < r1 + r2"
  shows "(lens r1 r2 has_real_derivative (- 2 * sqrt (r1\<^sup>2 - (chordOffset r1 r2 d)\<^sup>2))) (at d)"
proof -
  have d0: "d \<noteq> 0" using d(1) by linarith
  have d': "\<bar>r2 - r1\<bar> < d" "d < r2 + r1" using d by auto
  have D1: "((\<lambda>d. segment r1 (chordOffset r1 r2 d)) has_real_derivative
      (- 2 * sqrt (r1\<^sup>2 - (chordOffset r1 r2 d)\<^sup>2)) * (1 / 2 - (r1\<^sup>2 - r2\<^sup>2) / (2 * d\<^sup>2))) (at d)"
    by (rule DERIV_chain2[where f = "segment r1" and g = "chordOffset r1 r2",
          OF DERIV_segment[OF r(1) chord_strict[OF d]] DERIV_chordOffset[OF d0]])
  have D2: "((\<lambda>d. segment r2 (chordOffset r2 r1 d)) has_real_derivative
      (- 2 * sqrt (r2\<^sup>2 - (chordOffset r2 r1 d)\<^sup>2)) * (1 / 2 - (r2\<^sup>2 - r1\<^sup>2) / (2 * d\<^sup>2))) (at d)"
    by (rule DERIV_chain2[where f = "segment r2" and g = "chordOffset r2 r1",
          OF DERIV_segment[OF r(2) chord_strict[OF d']] DERIV_chordOffset[OF d0]])
  have eq: "r2\<^sup>2 - (chordOffset r2 r1 d)\<^sup>2 = r1\<^sup>2 - (chordOffset r1 r2 d)\<^sup>2"
    by (rule chord_equal[OF d0])
  have val: "(- 2 * sqrt (r1\<^sup>2 - (chordOffset r1 r2 d)\<^sup>2)) * (1 / 2 - (r1\<^sup>2 - r2\<^sup>2) / (2 * d\<^sup>2))
      + (- 2 * sqrt (r1\<^sup>2 - (chordOffset r1 r2 d)\<^sup>2)) * (1 / 2 - (r2\<^sup>2 - r1\<^sup>2) / (2 * d\<^sup>2))
      = - 2 * sqrt (r1\<^sup>2 - (chordOffset r1 r2 d)\<^sup>2)"
  proof -
    have "(r2\<^sup>2 - r1\<^sup>2) / (2 * d\<^sup>2) = - ((r1\<^sup>2 - r2\<^sup>2) / (2 * d\<^sup>2))"
      by (simp only: minus_divide_left minus_diff_eq)
    then have "(1 / 2 - (r1\<^sup>2 - r2\<^sup>2) / (2 * d\<^sup>2)) + (1 / 2 - (r2\<^sup>2 - r1\<^sup>2) / (2 * d\<^sup>2)) = 1"
      by simp
    then show ?thesis
      by (simp only: distrib_left[symmetric] mult_1_right)
  qed
  show ?thesis
    using DERIV_add[OF D1 D2] unfolding eq val lens_def[abs_def] .
qed

lemma chordOffset_hi: "0 < r1 \<Longrightarrow> 0 < r2 \<Longrightarrow> chordOffset r1 r2 (r1 + r2) = r1"
  by (simp add: chordOffset_def field_simps)

lemma chordOffset_lo_gt: "r2 < r1 \<Longrightarrow> chordOffset r1 r2 (r1 - r2) = r1 \<and> chordOffset r2 r1 (r1 - r2) = - r2"
  by (simp add: chordOffset_def field_simps)

lemma chordOffset_same: "chordOffset r r d = d / 2"
  by (simp add: chordOffset_def)

lemma segment_r: "segment r r = 0"
  by (cases "r = 0") (simp_all add: segment_def)

lemma segment_minus_r: "r \<noteq> 0 \<Longrightarrow> segment r (- r) = pi * r\<^sup>2"
  by (simp add: segment_def)

lemma segment_0: "segment r 0 = pi * r\<^sup>2 / 2"
  by (simp add: segment_def)

lemma lens_hi: "0 < r1 \<Longrightarrow> 0 < r2 \<Longrightarrow> lens r1 r2 (r1 + r2) = 0"
  using chordOffset_hi[of r1 r2] chordOffset_hi[of r2 r1]
  by (simp add: lens_def segment_r add.commute)

lemma lens_lo:
  assumes "0 < r1" "0 < r2"
  shows "lens r1 r2 \<bar>r1 - r2\<bar> = pi * (min r1 r2)\<^sup>2"
proof -
  consider "r2 < r1" | "r1 < r2" | "r1 = r2" by linarith
  then show ?thesis
  proof cases
    case 1
    then show ?thesis
      using chordOffset_lo_gt[OF 1] assms
      by (simp add: lens_def segment_r segment_minus_r min_def)
  next
    case 2
    have "\<bar>r1 - r2\<bar> = r2 - r1" using 2 by simp
    then show ?thesis
      using chordOffset_lo_gt[OF 2] assms 2
      by (simp add: lens_def segment_r segment_minus_r min_def)
  next
    case 3
    then show ?thesis
      by (simp add: lens_def chordOffset_same segment_0)
  qed
qed

lemma circleOverlap_clamp:
  assumes "0 < r1" "0 < r2"
  shows "circleOverlap r1 r2 d = lens r1 r2 (max \<bar>r1 - r2\<bar> (min (r1 + r2) d))"
proof -
  have lohi: "\<bar>r1 - r2\<bar> < r1 + r2" using assms by auto
  consider "d \<ge> r1 + r2" | "d < r1 + r2" "d \<le> \<bar>r1 - r2\<bar>" | "d < r1 + r2" "\<bar>r1 - r2\<bar> < d"
    by linarith
  then show ?thesis
  proof cases
    case 1
    then have "max \<bar>r1 - r2\<bar> (min (r1 + r2) d) = r1 + r2"
      using lohi by (simp add: min_def max_def)
    then show ?thesis
      using 1 assms by (simp add: lens_hi circleOverlap_def)
  next
    case 2
    then have "max \<bar>r1 - r2\<bar> (min (r1 + r2) d) = \<bar>r1 - r2\<bar>"
      by (simp add: min_def max_def)
    then show ?thesis
      using 2 assms by (simp add: lens_lo circleOverlap_def Let_def power2_eq_square)
  next
    case 3
    then have "max \<bar>r1 - r2\<bar> (min (r1 + r2) d) = d"
      by (simp add: min_def max_def)
    then show ?thesis
      using 3 assms circleOverlap_lens[of r1 r2 d] by simp
  qed
qed

lemma continuous_on_segment:
  assumes r: "0 < r" and g: "continuous_on S g" and b: "\<And>d. d \<in> S \<Longrightarrow> (g d)\<^sup>2 \<le> r\<^sup>2"
  shows "continuous_on S (\<lambda>d. segment r (g d))"
proof -
  have bd: "- 1 \<le> g d / r \<and> g d / r \<le> 1" if "d \<in> S" for d
    using sq_le_bounds[of r "g d"] b[OF that] r by (simp add: field_simps)
  have "continuous_on S (\<lambda>d. arccos (g d / r))"
    by (rule continuous_on_arccos) (use r g bd in \<open>auto intro!: continuous_intros\<close>)
  moreover have "continuous_on S (\<lambda>d. g d * sqrt (r\<^sup>2 - (g d)\<^sup>2))"
    using g by (auto intro!: continuous_intros)
  ultimately show ?thesis
    unfolding segment_def by (auto intro!: continuous_intros)
qed

lemma continuous_on_chordOffset:
  assumes r: "0 < r1" "0 < r2"
  shows "continuous_on {\<bar>r1 - r2\<bar> .. r1 + r2} (chordOffset r1 r2)"
proof (cases "r1 = r2")
  case True
  have "chordOffset r1 r2 = (\<lambda>d. d / 2)"
    using True by (auto simp: chordOffset_same)
  then show ?thesis
    by (simp add: continuous_intros)
next
  case False
  then have "\<forall>d\<in>{\<bar>r1 - r2\<bar> .. r1 + r2}. 2 * d \<noteq> 0"
    by auto
  then show ?thesis
    unfolding chordOffset_def[abs_def] by (intro continuous_intros) auto
qed

lemma chord_le_closed:
  assumes r: "0 < r1" "0 < r2" and d: "\<bar>r1 - r2\<bar> \<le> d" "d \<le> r1 + r2"
  shows "(chordOffset r1 r2 d)\<^sup>2 \<le> r1\<^sup>2"
proof (cases "d = 0")
  case True
  then show ?thesis by (simp add: chordOffset_def)
next
  case False
  then show ?thesis using chord_le[OF d] by simp
qed

lemma continuous_on_lens:
  assumes r: "0 < r1" "0 < r2"
  shows "continuous_on {\<bar>r1 - r2\<bar> .. r1 + r2} (lens r1 r2)"
proof -
  have 1: "continuous_on {\<bar>r1 - r2\<bar> .. r1 + r2} (\<lambda>d. segment r1 (chordOffset r1 r2 d))"
    by (rule continuous_on_segment[OF r(1) continuous_on_chordOffset[OF r]])
       (use chord_le_closed[OF r] in auto)
  have "continuous_on {\<bar>r2 - r1\<bar> .. r2 + r1} (\<lambda>d. segment r2 (chordOffset r2 r1 d))"
    by (rule continuous_on_segment[OF r(2) continuous_on_chordOffset[OF r(2,1)]])
       (use chord_le_closed[OF r(2,1)] in auto)
  then have 2: "continuous_on {\<bar>r1 - r2\<bar> .. r1 + r2} (\<lambda>d. segment r2 (chordOffset r2 r1 d))"
    by (simp add: abs_minus_commute add.commute)
  show ?thesis
    unfolding lens_def[abs_def] by (intro continuous_on_add 1 2)
qed

lemma lens_antimono:
  assumes r: "0 < r1" "0 < r2" and xy: "\<bar>r1 - r2\<bar> \<le> x" "x \<le> y" "y \<le> r1 + r2"
  shows "lens r1 r2 y \<le> lens r1 r2 x"
proof (cases "x = y")
  case True
  then show ?thesis by simp
next
  case False
  then have lt: "x < y" using xy(2) by simp
  have cont: "continuous_on {x..y} (lens r1 r2)"
    by (rule continuous_on_subset[OF continuous_on_lens[OF r]]) (use xy in auto)
  have der: "(lens r1 r2 has_real_derivative (- 2 * sqrt (r1\<^sup>2 - (chordOffset r1 r2 z)\<^sup>2))) (at z)"
    if "x < z" "z < y" for z
    by (rule DERIV_lens[OF r]) (use that xy in auto)
  have dif: "lens r1 r2 differentiable (at z)" if "x < z" "z < y" for z
    using der[OF that] real_differentiable_def by blast
  from MVT[OF lt cont dif] obtain l z where z: "x < z" "z < y"
    "(lens r1 r2 has_real_derivative l) (at z)" "lens r1 r2 y - lens r1 r2 x = (y - x) * l"
    by blast
  have "l = - 2 * sqrt (r1\<^sup>2 - (chordOffset r1 r2 z)\<^sup>2)"
    by (rule DERIV_unique[OF z(3) der[OF z(1,2)]])
  moreover have "0 \<le> sqrt (r1\<^sup>2 - (chordOffset r1 r2 z)\<^sup>2)"
    using chord_le_closed[OF r, of z] z(1,2) xy by simp
  ultimately have "l \<le> 0" by simp
  then have "(y - x) * l \<le> 0"
    using lt by (simp add: mult_nonneg_nonpos)
  then show ?thesis
    using z(4) by simp
qed

lemma circleOverlap_degenerate:
  assumes "0 \<le> r1" "0 \<le> r2" "r1 = 0 \<or> r2 = 0"
  shows "circleOverlap r1 r2 d = 0"
  using assms by (auto simp: circleOverlap_def Let_def)

lemma continuous_on_circleOverlap:
  assumes "0 \<le> r1" "0 \<le> r2"
  shows "continuous_on UNIV (circleOverlap r1 r2)"
proof (cases "r1 = 0 \<or> r2 = 0")
  case True
  then have "circleOverlap r1 r2 = (\<lambda>d. 0)"
    using circleOverlap_degenerate[OF assms] by auto
  then show ?thesis by simp
next
  case False
  then have r: "0 < r1" "0 < r2" using assms by auto
  have lohi: "\<bar>r1 - r2\<bar> \<le> r1 + r2" using r by auto
  have eq: "circleOverlap r1 r2 = (\<lambda>d. lens r1 r2 (max \<bar>r1 - r2\<bar> (min (r1 + r2) d)))"
    using circleOverlap_clamp[OF r] by auto
  have "continuous_on UNIV (lens r1 r2 \<circ> (\<lambda>d. max \<bar>r1 - r2\<bar> (min (r1 + r2) d)))"
  proof (rule continuous_on_compose)
    show "continuous_on UNIV (\<lambda>d. max \<bar>r1 - r2\<bar> (min (r1 + r2) d))"
      by (intro continuous_intros)
    show "continuous_on ((\<lambda>d. max \<bar>r1 - r2\<bar> (min (r1 + r2) d)) ` UNIV) (lens r1 r2)"
      by (rule continuous_on_subset[OF continuous_on_lens[OF r]]) (use lohi in auto)
  qed
  then show ?thesis
    unfolding eq by (simp add: comp_def)
qed

lemma circleOverlap_antimono:
  assumes "0 \<le> r1" "0 \<le> r2" "d \<le> d'"
  shows "circleOverlap r1 r2 d' \<le> circleOverlap r1 r2 d"
proof (cases "r1 = 0 \<or> r2 = 0")
  case True
  then show ?thesis
    using circleOverlap_degenerate[OF assms(1,2)] by simp
next
  case False
  then have r: "0 < r1" "0 < r2" using assms by auto
  have lohi: "\<bar>r1 - r2\<bar> \<le> r1 + r2" using r by auto
  show ?thesis
    unfolding circleOverlap_clamp[OF r]
    by (rule lens_antimono[OF r]) (use lohi assms(3) in auto)
qed

lemma circleOverlap_nested:
  assumes "0 \<le> r1" "0 \<le> r2" "d \<le> \<bar>r1 - r2\<bar>"
  shows "circleOverlap r1 r2 d = pi * (min r1 r2)\<^sup>2"
proof (cases "d \<ge> r1 + r2")
  case True
  then have "min r1 r2 = 0"
    using assms by (auto simp: min_def)
  then show ?thesis
    using True by (simp add: circleOverlap_def)
next
  case False
  then show ?thesis
    using assms(3) by (simp add: circleOverlap_def Let_def power2_eq_square)
qed

text \<open>
  In exact arithmetic, for non-negative radii, \<open>circleOverlap\<close> is 0 when \<open>d \<ge> r1 + r2\<close>,
  is \<open>\<pi>\<cdot>min(r1, r2)\<^sup>2\<close> when \<open>d \<le> |r1 - r2|\<close>, is the sum of the two circular segments
  \<open>r\<^sup>2\<cdot>arccos(a / r) - a\<cdot>sqrt(r\<^sup>2 - a\<^sup>2)\<close> in between, is continuous in \<open>d\<close>, and is
  monotonically non-increasing in \<open>d\<close>.
\<close>

lemma circleOverlap_exact:
  assumes "0 \<le> r1" "0 \<le> r2"
  shows "(\<forall>d. d \<ge> r1 + r2 \<longrightarrow> circleOverlap r1 r2 d = 0)
    \<and> (\<forall>d. d \<le> \<bar>r1 - r2\<bar> \<longrightarrow> circleOverlap r1 r2 d = pi * (min r1 r2)\<^sup>2)
    \<and> (\<forall>d. \<bar>r1 - r2\<bar> < d \<and> d < r1 + r2 \<longrightarrow>
          circleOverlap r1 r2 d =
            r1\<^sup>2 * arccos (chordOffset r1 r2 d / r1)
              - chordOffset r1 r2 d * sqrt (r1\<^sup>2 - (chordOffset r1 r2 d)\<^sup>2)
            + (r2\<^sup>2 * arccos (chordOffset r2 r1 d / r2)
              - chordOffset r2 r1 d * sqrt (r2\<^sup>2 - (chordOffset r2 r1 d)\<^sup>2)))
    \<and> continuous_on UNIV (circleOverlap r1 r2)
    \<and> (\<forall>d d'. d \<le> d' \<longrightarrow> circleOverlap r1 r2 d' \<le> circleOverlap r1 r2 d)"
proof (intro conjI allI impI)
  fix d assume "d \<ge> r1 + r2"
  then show "circleOverlap r1 r2 d = 0"
    by (simp add: circleOverlap_def)
next
  fix d assume "d \<le> \<bar>r1 - r2\<bar>"
  then show "circleOverlap r1 r2 d = pi * (min r1 r2)\<^sup>2"
    by (rule circleOverlap_nested[OF assms])
next
  fix d assume d: "\<bar>r1 - r2\<bar> < d \<and> d < r1 + r2"
  then have "r1 \<noteq> 0" "r2 \<noteq> 0" "\<not> d \<ge> r1 + r2" "\<not> d \<le> \<bar>r1 - r2\<bar>"
    using assms by auto
  then have "circleOverlap r1 r2 d = lens r1 r2 d"
    by (rule circleOverlap_lens)
  then show "circleOverlap r1 r2 d =
            r1\<^sup>2 * arccos (chordOffset r1 r2 d / r1)
              - chordOffset r1 r2 d * sqrt (r1\<^sup>2 - (chordOffset r1 r2 d)\<^sup>2)
            + (r2\<^sup>2 * arccos (chordOffset r2 r1 d / r2)
              - chordOffset r2 r1 d * sqrt (r2\<^sup>2 - (chordOffset r2 r1 d)\<^sup>2))"
    by (simp only: lens_def segment_def)
next
  show "continuous_on UNIV (circleOverlap r1 r2)"
    by (rule continuous_on_circleOverlap[OF assms])
next
  fix d d' :: real assume "d \<le> d'"
  then show "circleOverlap r1 r2 d' \<le> circleOverlap r1 r2 d"
    by (rule circleOverlap_antimono[OF assms])
qed

section \<open>The overlap of two circles in double precision\<close>

text \<open>\<open>circleArea\<close> and \<open>circleOverlap\<close> on doubles: every operation of the source, in
  its order, with its rounding. The approximations of \<open>Math.acos\<close> and \<open>Math.sqrt\<close> are
  the parameters \<open>acosf\<close> and \<open>sqrtf\<close>.\<close>

definition circleArea_double :: "(real \<Rightarrow> real) \<Rightarrow> (real \<Rightarrow> real) \<Rightarrow> jsnum \<Rightarrow> jsnum \<Rightarrow> jsnum" where
  "circleArea_double acosf sqrtf r w =
     sub64 (mul64 (mul64 r r) (Math_acos acosf (sub64 (Num 1) (div64 w r))))
           (mul64 (sub64 r w) (Math_sqrt64 sqrtf (mul64 w (sub64 (mul64 (Num 2) r) w))))"

definition circleOverlap_double ::
  "(real \<Rightarrow> real) \<Rightarrow> (real \<Rightarrow> real) \<Rightarrow> jsnum \<Rightarrow> jsnum \<Rightarrow> jsnum \<Rightarrow> jsnum" where
  "circleOverlap_double acosf sqrtf r1 r2 d =
     (if d \<ge> add64 r1 r2 then Num 0
      else if d \<le> \<bar>sub64 r1 r2\<bar> then (let r = Math_min r1 r2 in mul64 (mul64 Math_PI r) r)
      else
        (let w1 = sub64 r1 (div64 (add64 (sub64 (mul64 d d) (mul64 r2 r2)) (mul64 r1 r1))
                                  (mul64 (Num 2) d));
             w2 = sub64 r2 (div64 (add64 (sub64 (mul64 d d) (mul64 r1 r1)) (mul64 r2 r2))
                                  (mul64 (Num 2) d))
         in add64 (circleArea_double acosf sqrtf r1 w1) (circleArea_double acosf sqrtf r2 w2)))"

text \<open>
  Claim C3 says that between \<open>|r1 - r2|\<close> and \<open>r1 + r2\<close> the result of \<open>circleOverlap\<close>
  is the sum of the two circular-segment areas, continuous and non-increasing in \<open>d\<close>.
  On doubles the result is not a number for the radii 5.46 and 6.9 at the distance
  1.4400000000000006, just above the difference of the radii: the width of the first
  segment is rounded to a value above the diameter, the argument of \<open>Math.acos\<close> in
  \<open>circleArea\<close> is \<open>- 1 - 2 ^ (- 51)\<close>, below \<open>- 1\<close>, and the result is NaN whatever
  the approximations of \<open>Math.acos\<close> and \<open>Math.sqrt\<close> are. The three doubles are written
  as fractions: 5.46 is \<open>6147413491360727 / 2 ^ 50\<close>, 6.9 is \<open>3884354678607053 / 2 ^ 49\<close> and
  1.4400000000000006 is \<open>6485183463413517 / 2 ^ 52\<close>.
\<close>

theorem circleOverlap_double_NaN:
  "circleOverlap_double acosf sqrtf
       (Num (6147413491360727 / 1125899906842624))
       (Num (3884354678607053 / 562949953421312))
       (Num (6485183463413517 / 4503599627370496)) = NaN
   \<and> \<bar>6147413491360727 / 1125899906842624 - 3884354678607053 / 562949953421312 :: real\<bar>
       < 6485183463413517 / 4503599627370496
   \<and> (6485183463413517 / 4503599627370496 :: real)
       < 6147413491360727 / 1125899906842624 + 3884354678607053 / 562949953421312"
proof -
  have s12: "add64 (Num (6147413491360727 / 1125899906842624)) (Num (3884354678607053 / 562949953421312)) = Num (869757678035927 / 70368744177664)"
    using fl_ge_one[of 3 "(6147413491360727 / 1125899906842624) + (3884354678607053 / 562949953421312)"]
    by (simp add: add64_def round64_def roundEven_def)
  have d12: "sub64 (Num (6147413491360727 / 1125899906842624)) (Num (3884354678607053 / 562949953421312)) = Num (- (1621295865853379 / 1125899906842624))"
    using fl_ge_one[of 0 "(6147413491360727 / 1125899906842624) - (3884354678607053 / 562949953421312)"]
    by (simp add: sub64_def round64_def roundEven_def)
  have t1: "mul64 (Num (6485183463413517 / 4503599627370496)) (Num (6485183463413517 / 4503599627370496)) = Num (2334666046828867 / 1125899906842624)"
    using fl_ge_one[of 1 "(6485183463413517 / 4503599627370496) * (6485183463413517 / 4503599627370496)"]
    by (simp add: mul64_def round64_def roundEven_def)
  have t2: "mul64 (Num (3884354678607053 / 562949953421312)) (Num (3884354678607053 / 562949953421312)) = Num (6700511820597167 / 140737488355328)"
    using fl_ge_one[of 5 "(3884354678607053 / 562949953421312) * (3884354678607053 / 562949953421312)"]
    by (simp add: mul64_def round64_def roundEven_def)
  have t3: "sub64 (Num (2334666046828867 / 1125899906842624)) (Num (6700511820597167 / 140737488355328)) = Num (- (6408678564743559 / 140737488355328))"
    using fl_ge_one[of 5 "(2334666046828867 / 1125899906842624) - (6700511820597167 / 140737488355328)"]
    by (simp add: sub64_def round64_def roundEven_def)
  have t4: "mul64 (Num (6147413491360727 / 1125899906842624)) (Num (6147413491360727 / 1125899906842624)) = Num (32778200842607 / 1099511627776)"
    using fl_ge_one[of 4 "(6147413491360727 / 1125899906842624) * (6147413491360727 / 1125899906842624)"]
    by (simp add: mul64_def round64_def roundEven_def)
  have t5: "add64 (Num (- (6408678564743559 / 140737488355328))) (Num (32778200842607 / 1099511627776)) = Num (- (2213068856889863 / 140737488355328))"
    using fl_ge_one[of 3 "(- (6408678564743559 / 140737488355328)) + (32778200842607 / 1099511627776)"]
    by (simp add: add64_def round64_def roundEven_def)
  have t6: "mul64 (Num (2)) (Num (6485183463413517 / 4503599627370496)) = Num (6485183463413517 / 2251799813685248)"
    using fl_ge_one[of 1 "(2) * (6485183463413517 / 4503599627370496)"]
    by (simp add: mul64_def round64_def roundEven_def)
  have a1: "div64 (Num (- (2213068856889863 / 140737488355328))) (Num (6485183463413517 / 2251799813685248)) = Num (- (768426686420091 / 140737488355328))"
    using fl_ge_one[of 2 "(- (2213068856889863 / 140737488355328)) / (6485183463413517 / 2251799813685248)"]
    by (simp add: div64_def round64_def roundEven_def)
  have w1: "sub64 (Num (6147413491360727 / 1125899906842624)) (Num (- (768426686420091 / 140737488355328))) = Num (768426686420091 / 70368744177664)"
    using fl_ge_one[of 3 "(6147413491360727 / 1125899906842624) - (- (768426686420091 / 140737488355328))"]
    by (simp add: sub64_def round64_def roundEven_def)
  have q: "div64 (Num (768426686420091 / 70368744177664)) (Num (6147413491360727 / 1125899906842624)) = Num (4503599627370497 / 2251799813685248)"
    using fl_ge_one[of 1 "(768426686420091 / 70368744177664) / (6147413491360727 / 1125899906842624)"]
    by (simp add: div64_def round64_def roundEven_def)
  have x: "sub64 (Num (1)) (Num (4503599627370497 / 2251799813685248)) = Num (- (2251799813685249 / 2251799813685248))"
    using fl_ge_one[of 0 "(1) - (4503599627370497 / 2251799813685248)"]
    by (simp add: sub64_def round64_def roundEven_def)
  have ac: "Math_acos acosf (Num (- (2251799813685249 / 2251799813685248))) = NaN"
    by (simp add: Math_acos_def)
  have area1: "circleArea_double acosf sqrtf (Num (6147413491360727 / 1125899906842624)) (Num (768426686420091 / 70368744177664)) = NaN"
    unfolding circleArea_double_def q x ac mul64_NaN sub64_NaN ..
  have "circleOverlap_double acosf sqrtf (Num (6147413491360727 / 1125899906842624)) (Num (3884354678607053 / 562949953421312)) (Num (6485183463413517 / 4503599627370496)) = NaN"
    unfolding circleOverlap_double_def Let_def s12 d12 t1 t2 t3 t4 t5 t6 a1 w1 area1 add64_NaN
    by simp
  then show ?thesis
    by simp
qed

end
